theory Spec2Isabelle
  imports Complex_Main "HOL-Library.Log_Nat"
begin

section \<open>The cloud-switch custom element\<close>

text \<open>
  The repository holds one class, \<^verbatim>\<open>SwitchElement\<close> in
  \<^verbatim>\<open>src/js/switch-component.js\<close>: a custom element that mirrors the state of
  its own \<^verbatim>\<open>checked\<close>, \<^verbatim>\<open>disabled\<close> and \<^verbatim>\<open>readonly\<close> attributes
  into two native checkboxes, one in its shadow tree (\<^verbatim>\<open>this.shadowCheck\<close>, which the
  style sheet reads to draw the switch) and one appended as a child
  (\<^verbatim>\<open>this.checkbox\<close>, which carries the value on form submission).

  The element is embedded as a record of the parts of the document that the class reads
  or writes, and every method as a function from that record to the updated record.
\<close>

subsection \<open>Numbers\<close>

text \<open>
  A JavaScript number is an IEEE 754 binary64 value. \<open>Number q\<close> is the finite double
  whose value is the rational \<open>q\<close>; the sign of zero is not kept, since the class only
  converts its results to strings, and both zeros convert to \<^verbatim>\<open>0\<close>.

  \<open>round64 x\<close> is the double nearest to the rational \<open>x\<close>, ties to the even significand
  (the rounding of every arithmetic operation and of every numeric literal):
  \<open>exponent x\<close> is \<open>\<lfloor>log\<^sub>2 \<bar>x\<bar>\<rfloor>\<close>, \<open>quantum x\<close> the spacing of the doubles around
  \<open>x\<close> (53 significant bits, least exponent \<open>-1022\<close>), and a result of magnitude
  \<open>2\<^sup>1\<^sup>0\<^sup>2\<^sup>4\<close> or more is an infinity.
\<close>

datatype number = Number rat | Infinity | NegInfinity | NaN

definition pow2 :: "int \<Rightarrow> rat" where
  "pow2 e = (if 0 \<le> e then 2 ^ nat e else 1 / 2 ^ nat (- e))"

definition exponent :: "rat \<Rightarrow> int" where
  "exponent x =
     (let (a, b) = quotient_of \<bar>x\<bar>; d = bitlen a - bitlen b
      in if pow2 d \<le> \<bar>x\<bar> then d else d - 1)"

definition round_ties_even :: "rat \<Rightarrow> int" where
  "round_ties_even x =
     (let f = \<lfloor>x\<rfloor>; d = x - of_int f
      in if d < 1 / 2 then f else if 1 / 2 < d then f + 1
         else if even f then f else f + 1)"

definition quantum :: "rat \<Rightarrow> rat" where
  "quantum x = pow2 (max (exponent x) (- 1022) - 52)"

definition rounded :: "rat \<Rightarrow> rat" where
  "rounded x = (if x = 0 then 0 else of_int (round_ties_even (x / quantum x)) * quantum x)"

definition round64 :: "rat \<Rightarrow> number" where
  "round64 x =
     (let r = rounded x
      in if pow2 1024 \<le> r then Infinity
         else if r \<le> - pow2 1024 then NegInfinity
         else Number r)"

definition is_double :: "rat \<Rightarrow> bool" where
  "is_double q = (round64 q = Number q)"

text \<open>The operators \<^verbatim>\<open>*\<close> and \<^verbatim>\<open>-\<close> on numbers.\<close>

fun js_times :: "number \<Rightarrow> number \<Rightarrow> number" where
  "js_times (Number a) (Number b) = round64 (a * b)"
| "js_times (Number a) Infinity =
     (if a = 0 then NaN else if 0 < a then Infinity else NegInfinity)"
| "js_times (Number a) NegInfinity =
     (if a = 0 then NaN else if 0 < a then NegInfinity else Infinity)"
| "js_times Infinity (Number b) =
     (if b = 0 then NaN else if 0 < b then Infinity else NegInfinity)"
| "js_times NegInfinity (Number b) =
     (if b = 0 then NaN else if 0 < b then NegInfinity else Infinity)"
| "js_times Infinity Infinity = Infinity"
| "js_times Infinity NegInfinity = NegInfinity"
| "js_times NegInfinity Infinity = NegInfinity"
| "js_times NegInfinity NegInfinity = Infinity"
| "js_times NaN y = NaN"
| "js_times x NaN = NaN"

fun js_minus :: "number \<Rightarrow> number \<Rightarrow> number" where
  "js_minus (Number a) (Number b) = round64 (a - b)"
| "js_minus (Number a) Infinity = NegInfinity"
| "js_minus (Number a) NegInfinity = Infinity"
| "js_minus Infinity (Number b) = Infinity"
| "js_minus NegInfinity (Number b) = NegInfinity"
| "js_minus Infinity Infinity = NaN"
| "js_minus Infinity NegInfinity = Infinity"
| "js_minus NegInfinity Infinity = NegInfinity"
| "js_minus NegInfinity NegInfinity = NaN"
| "js_minus NaN y = NaN"
| "js_minus x NaN = NaN"

subsection \<open>JavaScript values and DOM strings\<close>

text \<open>
  Attribute values are DOM strings. The code converts in both directions between numbers
  and strings (\<^verbatim>\<open>setAttribute('width', 48)\<close> stores a string, and
  \<^verbatim>\<open>value * 0.45\<close> reads a string back as a number), so a string that spells a
  finite number is kept as \<open>NumStr q\<close>, the numeral for the double \<open>q\<close>, and every other
  string as \<open>Str s\<close> with its characters (so \<open>Str\<close> is never applied to a numeral). Two
  spellings of one number are therefore one \<open>NumStr\<close>; the code only compares such
  strings to decide whether to run a setter a second time with the same value.

  In \<open>JNum q\<close> the rational \<open>q\<close> is the value of a double (\<open>is_double q\<close>); the number
  that a literal such as \<^verbatim>\<open>4.1\<close> denotes is \<open>JNum (rounded (41 / 10))\<close>. \<open>is_number\<close>
  holds of the values of type Number.
\<close>

datatype domstring = Str string | NumStr rat

datatype jsval = JUndefined | JNull | JBool bool | JNum rat | JNaN | JInfinity | JNegInfinity
  | JString domstring

fun is_number :: "jsval \<Rightarrow> bool" where
  "is_number (JNum q) = is_double q"
| "is_number JNaN = True"
| "is_number JInfinity = True"
| "is_number JNegInfinity = True"
| "is_number v = False"

definition whitespace :: "char list" where
  "whitespace = [CHR 0x09, CHR 0x0A, CHR 0x0B, CHR 0x0C, CHR 0x0D, CHR 0x20]"

definition trim :: "string \<Rightarrow> string" where
  "trim s =
     rev (dropWhile (\<lambda>c. c \<in> set whitespace) (rev (dropWhile (\<lambda>c. c \<in> set whitespace) s)))"

fun ToBoolean :: "jsval \<Rightarrow> bool" where
  "ToBoolean JUndefined = False"
| "ToBoolean JNull = False"
| "ToBoolean (JBool b) = b"
| "ToBoolean (JNum q) = (q \<noteq> 0)"
| "ToBoolean JNaN = False"
| "ToBoolean JInfinity = True"
| "ToBoolean JNegInfinity = True"
| "ToBoolean (JString (Str s)) = (s \<noteq> [])"
| "ToBoolean (JString (NumStr q)) = True"

text \<open>
  \<open>ToNumber\<close> of a string that is no numeral: a blank string reads as zero, the names of
  the infinities as the infinities, anything else as \<open>NaN\<close>.
\<close>

fun ToNumber :: "jsval \<Rightarrow> number" where
  "ToNumber JUndefined = NaN"
| "ToNumber JNull = Number 0"
| "ToNumber (JBool b) = Number (if b then 1 else 0)"
| "ToNumber (JNum q) = Number q"
| "ToNumber JNaN = NaN"
| "ToNumber JInfinity = Infinity"
| "ToNumber JNegInfinity = NegInfinity"
| "ToNumber (JString (Str s)) =
     (let t = trim s
      in if t = [] then Number 0
         else if t = ''Infinity'' \<or> t = ''+Infinity'' then Infinity
         else if t = ''-Infinity'' then NegInfinity
         else NaN)"
| "ToNumber (JString (NumStr q)) = Number q"

fun Number_toString :: "number \<Rightarrow> domstring" where
  "Number_toString (Number q) = NumStr q"
| "Number_toString Infinity = Str ''Infinity''"
| "Number_toString NegInfinity = Str ''-Infinity''"
| "Number_toString NaN = Str ''NaN''"

fun ToString :: "jsval \<Rightarrow> domstring" where
  "ToString JUndefined = Str ''undefined''"
| "ToString JNull = Str ''null''"
| "ToString (JBool b) = Str (if b then ''true'' else ''false'')"
| "ToString (JNum q) = NumStr q"
| "ToString JNaN = Str ''NaN''"
| "ToString JInfinity = Str ''Infinity''"
| "ToString JNegInfinity = Str ''-Infinity''"
| "ToString (JString d) = d"

text \<open>
  \<open>of_attr\<close> is the value handed to \<^verbatim>\<open>attributeChangedCallback\<close> for an attribute:
  \<^verbatim>\<open>null\<close> when it is absent, its string otherwise.
\<close>

fun of_attr :: "domstring option \<Rightarrow> jsval" where
  "of_attr None = JNull"
| "of_attr (Some d) = JString d"

text \<open>\<^verbatim>\<open>Array.prototype.includes\<close> on an array of string literals.\<close>

definition Array_includes :: "string list \<Rightarrow> jsval \<Rightarrow> bool" where
  "Array_includes xs v = (case v of JString (Str t) \<Rightarrow> t \<in> set xs | _ \<Rightarrow> False)"

subsection \<open>The element\<close>

text \<open>
  \<^verbatim>\<open>style.setProperty(name, `${x}px`)\<close> is given \<open>Px\<close> of the interpolated string.
  The platform parses the text for the property and returns without a change when the
  text is not valid for it. For \<^verbatim>\<open>width\<close> and \<^verbatim>\<open>height\<close>, the two properties the
  class sets this way, the text is valid when \<open>x\<close> is a numeral that is not negative:
  \<^verbatim>\<open>NaNpx\<close>, \<^verbatim>\<open>Infinitypx\<close> and every other string followed by \<^verbatim>\<open>px\<close> are no
  lengths, and a negative length is not allowed for these two properties. The numeral is
  taken in the form in which a number is converted to a string. \<open>style\<close> and
  \<open>handle_style\<close> below hold, for each property, the declaration last accepted.
\<close>

datatype csstext = Px domstring

fun valid_length :: "csstext \<Rightarrow> bool" where
  "valid_length (Px (NumStr q)) = (0 \<le> q)"
| "valid_length (Px (Str s)) = False"

definition setProperty ::
    "string \<Rightarrow> csstext \<Rightarrow> (string \<rightharpoonup> csstext) \<Rightarrow> (string \<rightharpoonup> csstext)" where
  "setProperty name t decls = (if valid_length t then decls(name \<mapsto> t) else decls)"

datatype listener = Click_listener | Keyup_listener

text \<open>
  \<^item> \<open>attributes\<close>: the attributes of the host element, except \<^verbatim>\<open>class\<close> and
    \<^verbatim>\<open>style\<close>, which are the fields \<open>classList\<close> and \<open>style\<close>;
  \<^item> \<open>listeners\<close>: the event listener list of the host, as (type, callback, capture);
  \<^item> \<open>shadowCheck\<close>, \<open>checkbox\<close>, \<open>label\<close>: the attributes of the shadow checkbox, of
    the appended checkbox and of the label span;
  \<^item> \<open>shadowCheck_readonly\<close>, \<open>checkbox_readonly\<close>: the \<^verbatim>\<open>readonly\<close> property
    that \<^verbatim>\<open>set readonly\<close> assigns on the two checkboxes;
  \<^item> \<open>style\<close>, \<open>handle_style\<close>: the inline style of the host and of the handle span.
    The handle's custom property \<^verbatim>\<open>--handle-left\<close>, which \<^verbatim>\<open>set width\<close> computes
    from \<^verbatim>\<open>getComputedStyle\<close>, depends on the browser's layout and is not part of the
    record.
\<close>

record switch =
  attributes :: "string \<rightharpoonup> domstring"
  classList :: "string list"
  style :: "string \<rightharpoonup> csstext"
  listeners :: "(string \<times> listener \<times> bool) list"
  shadowCheck :: "string \<rightharpoonup> domstring"
  shadowCheck_readonly :: jsval
  label :: "string \<rightharpoonup> domstring"
  handle_style :: "string \<rightharpoonup> csstext"
  checkbox :: "string \<rightharpoonup> domstring"
  checkbox_readonly :: jsval

definition VALID_COLORS :: "string list" where
  "VALID_COLORS =
     [''success'', ''primary'', ''secondary'', ''danger'', ''warning'', ''info'', ''dark'']"

definition observedAttributes :: "string list" where
  "observedAttributes =
     [''disabled'', ''readonly'', ''checked'', ''value'', ''width'', ''height'',
      ''name'', ''color'', ''on-text'', ''off-text'']"

definition hasAttribute :: "switch \<Rightarrow> string \<Rightarrow> bool" where
  "hasAttribute s name = (attributes s name \<noteq> None)"

definition classList_add :: "string \<Rightarrow> switch \<Rightarrow> switch" where
  "classList_add tok s =
     (if tok \<in> set (classList s) then s else s\<lparr>classList := classList s @ [tok]\<rparr>)"

definition classList_remove :: "string \<Rightarrow> switch \<Rightarrow> switch" where
  "classList_remove tok s = s\<lparr>classList := removeAll tok (classList s)\<rparr>"

subsection \<open>A measure for the recursion between setters and callback\<close>

text \<open>
  A setter writes the host attribute, the platform then runs
  \<^verbatim>\<open>attributeChangedCallback\<close>, which assigns the property again. The numbers below
  bound the calls that are still to come: a boolean setter recurses only while the
  attribute's presence differs from the target, a string setter only until the attribute
  holds the string it is given.
\<close>

definition is_boolean_attr :: "string \<Rightarrow> bool" where
  "is_boolean_attr a = (a = ''checked'' \<or> a = ''disabled'' \<or> a = ''readonly'')"

definition m_setAttribute :: "string \<Rightarrow> jsval \<Rightarrow> switch \<Rightarrow> nat" where
  "m_setAttribute name v s =
     (if is_boolean_attr name then 3
      else if attributes s name = Some (ToString v) then 1 else 5)"

definition m_set_boolean :: "string \<Rightarrow> jsval \<Rightarrow> switch \<Rightarrow> nat" where
  "m_set_boolean name v s = (if hasAttribute s name \<noteq> ToBoolean v then 10 else 0)"

definition m_set_string :: "string \<Rightarrow> jsval \<Rightarrow> switch \<Rightarrow> nat" where
  "m_set_string name v s = m_setAttribute name v s + 1"

definition m_assign :: "string \<Rightarrow> jsval \<Rightarrow> switch \<Rightarrow> nat" where
  "m_assign p v s =
     (if is_boolean_attr p then m_set_boolean p v s + 1
      else if p = ''onText'' then m_set_string ''on-text'' v s + 3
      else if p = ''offText'' then m_set_string ''off-text'' v s + 3
      else m_set_string p v s + 1)"

definition m_attributeChangedCallback ::
    "string \<Rightarrow> domstring option \<Rightarrow> domstring option \<Rightarrow> switch \<Rightarrow> nat" where
  "m_attributeChangedCallback attr oldValue newValue s =
     (if is_boolean_attr attr then m_assign attr (JBool (newValue \<noteq> None)) s + 1
      else if oldValue \<noteq> newValue then m_assign attr (of_attr newValue) s + 1
      else 0)"

definition call_measure where
  "call_measure =
     case_sum
      (case_sum
        (case_sum
          (case_sum (\<lambda>(v, s). m_set_string ''width'' v s)
                    (\<lambda>(v, s). m_set_string ''height'' v s))
          (case_sum (\<lambda>(v, s). m_set_string ''color'' v s)
                    (\<lambda>(v, s). m_set_string ''on-text'' v s)))
        (case_sum
          (case_sum (\<lambda>(v, s). m_set_string ''on-text'' v s + 2)
                    (\<lambda>(v, s). m_set_string ''off-text'' v s))
          (case_sum (\<lambda>(v, s). m_set_string ''off-text'' v s + 2)
                    (\<lambda>(v, s). m_set_string ''name'' v s))))
      (case_sum
        (case_sum
          (case_sum (\<lambda>(v, s). m_set_string ''value'' v s)
                    (\<lambda>(v, s). m_set_boolean ''checked'' v s))
          (case_sum (\<lambda>(v, s). m_set_boolean ''disabled'' v s)
                    (\<lambda>(v, s). m_set_boolean ''readonly'' v s)))
        (case_sum
          (case_sum (\<lambda>(p, v, s). m_assign p v s)
                    (\<lambda>(n, v, s). m_setAttribute n v s))
          (case_sum (\<lambda>(n, s). 9)
                    (\<lambda>(a, old, new, s). m_attributeChangedCallback a old new s))))"

subsection \<open>Property setters, attribute writes and \<^verbatim>\<open>attributeChangedCallback\<close>\<close>

text \<open>
  \<open>setAttribute\<close> and \<open>removeAttribute\<close> are the host's own methods. For an observed
  attribute the platform runs \<^verbatim>\<open>attributeChangedCallback\<close> before the call returns,
  also when the new string equals the old one; removing an attribute that is absent does
  nothing. \<open>assign p v\<close> is the assignment \<^verbatim>\<open>this[p] = v\<close>, which runs the setter of
  the accessor property \<open>p\<close>; the callback is only ever run for the names in
  \<open>observedAttributes\<close>, all of which are accessor properties.
\<close>

function
  set_width :: "jsval \<Rightarrow> switch \<Rightarrow> switch" and
  set_height :: "jsval \<Rightarrow> switch \<Rightarrow> switch" and
  set_color :: "jsval \<Rightarrow> switch \<Rightarrow> switch" and
  set_on_text :: "jsval \<Rightarrow> switch \<Rightarrow> switch" and
  set_onText :: "jsval \<Rightarrow> switch \<Rightarrow> switch" and
  set_off_text :: "jsval \<Rightarrow> switch \<Rightarrow> switch" and
  set_offText :: "jsval \<Rightarrow> switch \<Rightarrow> switch" and
  set_name :: "jsval \<Rightarrow> switch \<Rightarrow> switch" and
  set_value :: "jsval \<Rightarrow> switch \<Rightarrow> switch" and
  set_checked :: "jsval \<Rightarrow> switch \<Rightarrow> switch" and
  set_disabled :: "jsval \<Rightarrow> switch \<Rightarrow> switch" and
  set_readonly :: "jsval \<Rightarrow> switch \<Rightarrow> switch" and
  assign :: "string \<Rightarrow> jsval \<Rightarrow> switch \<Rightarrow> switch" and
  setAttribute :: "string \<Rightarrow> jsval \<Rightarrow> switch \<Rightarrow> switch" and
  removeAttribute :: "string \<Rightarrow> switch \<Rightarrow> switch" and
  attributeChangedCallback ::
    "string \<Rightarrow> domstring option \<Rightarrow> domstring option \<Rightarrow> switch \<Rightarrow> switch"
where
  "set_width v s =
     (let s1 = setAttribute ''width'' v s;
          s2 = s1\<lparr>style := setProperty ''width'' (Px (ToString v)) (style s1)\<rparr>;
          s3 = s2\<lparr>handle_style := setProperty ''width''
                 (Px (Number_toString (js_times (ToNumber v) (Number (rounded (45 / 100))))))
                 (handle_style s2)\<rparr>
      in s3)"
| "set_height v s =
     (let s1 = setAttribute ''height'' v s;
          s2 = s1\<lparr>style := setProperty ''height'' (Px (ToString v)) (style s1)\<rparr>;
          s3 = s2\<lparr>handle_style := setProperty ''height''
                 (Px (Number_toString (js_minus (ToNumber v) (Number 4))))
                 (handle_style s2)\<rparr>
      in s3)"
| "set_color v s =
     (if \<not> Array_includes VALID_COLORS v then s
      else setAttribute ''color'' v s)"
| "set_on_text v s =
     (let s1 = s\<lparr>label := (label s)(''on-text'' \<mapsto> ToString v)\<rparr>
      in setAttribute ''on-text'' v s1)"
| "set_onText v s = assign ''on-text'' v s"
| "set_off_text v s =
     (let s1 = s\<lparr>label := (label s)(''off-text'' \<mapsto> ToString v)\<rparr>
      in setAttribute ''off-text'' v s1)"
| "set_offText v s = assign ''off-text'' v s"
| "set_name v s =
     (let s1 = s\<lparr>checkbox := (checkbox s)(''name'' \<mapsto> ToString v)\<rparr>
      in setAttribute ''name'' v s1)"
| "set_value v s =
     (let s1 = setAttribute ''value'' v s
      in s1\<lparr>checkbox := (checkbox s1)(''value'' \<mapsto> ToString v)\<rparr>)"
| "set_checked v s =
     (let isChecked = ToBoolean v in
      if isChecked then
        (let s1 = (if \<not> hasAttribute s ''checked''
                   then setAttribute ''checked'' (JString (Str '''')) s else s);
             s2 = (if shadowCheck s1 ''checked'' = None
                   then s1\<lparr>shadowCheck := (shadowCheck s1)(''checked'' \<mapsto> Str '''')\<rparr>
                   else s1);
             s3 = (if checkbox s2 ''checked'' = None
                   then s2\<lparr>checkbox := (checkbox s2)(''checked'' \<mapsto> Str '''')\<rparr>
                   else s2)
         in s3)
      else
        (let s1 = (if hasAttribute s ''checked'' then removeAttribute ''checked'' s else s);
             s2 = (if shadowCheck s1 ''checked'' \<noteq> None
                   then s1\<lparr>shadowCheck := (shadowCheck s1)(''checked'' := None)\<rparr>
                   else s1);
             s3 = (if checkbox s2 ''checked'' \<noteq> None
                   then s2\<lparr>checkbox := (checkbox s2)(''checked'' := None)\<rparr>
                   else s2)
         in s3))"
| "set_disabled v s =
     (let isDisabled = ToBoolean v in
      if isDisabled then
        (let s1 = (if \<not> hasAttribute s ''disabled''
                   then setAttribute ''disabled'' (JString (Str '''')) s else s);
             s2 = (if shadowCheck s1 ''disabled'' = None
                   then s1\<lparr>shadowCheck := (shadowCheck s1)(''disabled'' \<mapsto> Str '''')\<rparr>
                   else s1);
             s3 = (if checkbox s2 ''disabled'' = None
                   then s2\<lparr>checkbox := (checkbox s2)(''disabled'' \<mapsto> Str '''')\<rparr>
                   else s2)
         in s3)
      else
        (let s1 = (if hasAttribute s ''disabled'' then removeAttribute ''disabled'' s else s);
             s2 = (if shadowCheck s1 ''disabled'' \<noteq> None
                   then s1\<lparr>shadowCheck := (shadowCheck s1)(''disabled'' := None)\<rparr>
                   else s1);
             s3 = (if checkbox s2 ''disabled'' \<noteq> None
                   then s2\<lparr>checkbox := (checkbox s2)(''disabled'' := None)\<rparr>
                   else s2)
         in s3))"
| "set_readonly v s =
     (let isReadonly = ToBoolean v in
      if isReadonly then
        (let s1 = (if \<not> hasAttribute s ''readonly''
                   then setAttribute ''readonly'' (JString (Str '''')) s else s);
             s2 = (if shadowCheck s1 ''readonly'' = None
                   then s1\<lparr>shadowCheck := (shadowCheck s1)(''readonly'' \<mapsto> Str ''''),
                           shadowCheck_readonly := JBool True\<rparr>
                   else s1);
             s3 = (if checkbox s2 ''readonly'' = None
                   then s2\<lparr>checkbox := (checkbox s2)(''readonly'' \<mapsto> Str ''''),
                           checkbox_readonly := JBool True\<rparr>
                   else s2)
         in s3)
      else
        (let s1 = (if hasAttribute s ''readonly'' then removeAttribute ''readonly'' s else s);
             s2 = (if shadowCheck s1 ''readonly'' \<noteq> None
                   then s1\<lparr>shadowCheck := (shadowCheck s1)(''readonly'' := None),
                           shadowCheck_readonly := JBool False\<rparr>
                   else s1);
             s3 = (if checkbox s2 ''readonly'' \<noteq> None
                   then s2\<lparr>checkbox := (checkbox s2)(''readonly'' := None),
                           checkbox_readonly := JBool False\<rparr>
                   else s2)
         in s3))"
| "assign p v s =
     (if p = ''width'' then set_width v s
      else if p = ''height'' then set_height v s
      else if p = ''color'' then set_color v s
      else if p = ''on-text'' then set_on_text v s
      else if p = ''onText'' then set_onText v s
      else if p = ''off-text'' then set_off_text v s
      else if p = ''offText'' then set_offText v s
      else if p = ''name'' then set_name v s
      else if p = ''value'' then set_value v s
      else if p = ''checked'' then set_checked v s
      else if p = ''disabled'' then set_disabled v s
      else if p = ''readonly'' then set_readonly v s
      else s)"
| "setAttribute name v s =
     (let oldValue = attributes s name;
          s1 = s\<lparr>attributes := (attributes s)(name \<mapsto> ToString v)\<rparr>
      in if name \<in> set observedAttributes
         then attributeChangedCallback name oldValue (Some (ToString v)) s1
         else s1)"
| "removeAttribute name s =
     (case attributes s name of
        None \<Rightarrow> s
      | Some old \<Rightarrow>
          (let s1 = s\<lparr>attributes := (attributes s)(name := None)\<rparr>
           in if name \<in> set observedAttributes
              then attributeChangedCallback name (Some old) None s1
              else s1))"
| "attributeChangedCallback attr oldValue newValue s =
     (if attr = ''checked'' \<or> attr = ''disabled'' \<or> attr = ''readonly'' then
        (let hasAttr = (newValue \<noteq> None);
             s1 = assign attr (JBool hasAttr) s
         in if hasAttr then classList_add attr s1 else classList_remove attr s1)
      else if oldValue \<noteq> newValue then assign attr (of_attr newValue) s
      else s)"
  by pat_completeness (simp_all only: sum.inject sum.distinct prod.inject)

termination
  apply (relation "measure call_measure")
  apply (simp_all add: call_measure_def m_set_string_def m_set_boolean_def m_setAttribute_def
      m_assign_def m_attributeChangedCallback_def is_boolean_attr_def hasAttribute_def
      observedAttributes_def)
  apply (elim disjE; simp)+
  done

declare set_width.simps [simp del] set_height.simps [simp del] set_color.simps [simp del]
  set_on_text.simps [simp del] set_onText.simps [simp del] set_off_text.simps [simp del]
  set_offText.simps [simp del] set_name.simps [simp del] set_value.simps [simp del]
  set_checked.simps [simp del] set_disabled.simps [simp del] set_readonly.simps [simp del]
  assign.simps [simp del] setAttribute.simps [simp del] removeAttribute.simps [simp del]
  attributeChangedCallback.simps [simp del]

abbreviation terminates where
  "terminates \<equiv> set_width_set_height_set_color_set_on_text_set_onText_set_off_text_set_offText_set_name_set_value_set_checked_set_disabled_set_readonly_assign_setAttribute_removeAttribute_attributeChangedCallback_dom"

subsection \<open>Getters, event listeners and lifecycle callbacks\<close>

definition checked :: "switch \<Rightarrow> bool" where
  "checked s = hasAttribute s ''checked''"

definition disabled :: "switch \<Rightarrow> bool" where
  "disabled s = hasAttribute s ''disabled''"

definition readonly :: "switch \<Rightarrow> bool" where
  "readonly s = hasAttribute s ''readonly''"

record event =
  etype :: string
  which :: jsval
  cancelable :: bool
  defaultPrevented :: bool

definition preventDefault :: "event \<Rightarrow> event" where
  "preventDefault e = (if cancelable e then e\<lparr>defaultPrevented := True\<rparr> else e)"

text \<open>
  \<open>u_click\<close> and \<open>u_keyup\<close> are the methods \<^verbatim>\<open>_click\<close> and \<^verbatim>\<open>_keyup\<close>.
  Each returns its JavaScript return value, the event and the element.
\<close>

definition u_click :: "event \<Rightarrow> switch \<Rightarrow> jsval \<times> event \<times> switch" where
  "u_click e s =
     (if readonly s \<or> disabled s then (JUndefined, preventDefault e, s)
      else (JBool True, e, set_checked (JBool (\<not> checked s)) s))"

definition u_keyup :: "event \<Rightarrow> switch \<Rightarrow> jsval \<times> event \<times> switch" where
  "u_keyup e s =
     (if readonly s \<or> disabled s then (JBool False, e, s)
      else if which e = JNum 32 \<or> which e = JNum 13
      then (JBool (\<not> checked s), e, set_checked (JBool (\<not> checked s)) s)
      else (JBool False, e, s))"

text \<open>
  \<^verbatim>\<open>addEventListener\<close> ignores a registration that is already in the list;
  \<^verbatim>\<open>removeEventListener\<close> removes the matching one. \<open>dispatchEvent\<close> runs the
  listeners registered for the type of the event, in order; the platform does this for a
  user's click or key release on the element, and \<^verbatim>\<open>HTMLElement.click()\<close> does it
  with a synthetic click event.
\<close>

definition addEventListener :: "string \<Rightarrow> listener \<Rightarrow> bool \<Rightarrow> switch \<Rightarrow> switch" where
  "addEventListener type l useCapture s =
     (if (type, l, useCapture) \<in> set (listeners s) then s
      else s\<lparr>listeners := listeners s @ [(type, l, useCapture)]\<rparr>)"

definition removeEventListener :: "string \<Rightarrow> listener \<Rightarrow> bool \<Rightarrow> switch \<Rightarrow> switch" where
  "removeEventListener type l useCapture s =
     s\<lparr>listeners := removeAll (type, l, useCapture) (listeners s)\<rparr>"

fun call_listener :: "listener \<Rightarrow> event \<Rightarrow> switch \<Rightarrow> event \<times> switch" where
  "call_listener Click_listener e s = snd (u_click e s)"
| "call_listener Keyup_listener e s = snd (u_keyup e s)"

fun invoke_listeners ::
    "(string \<times> listener \<times> bool) list \<Rightarrow> event \<Rightarrow> switch \<Rightarrow> event \<times> switch" where
  "invoke_listeners [] e s = (e, s)"
| "invoke_listeners ((type, l, useCapture) # ls) e s =
     (if type = etype e
      then (case call_listener l e s of (e1, s1) \<Rightarrow> invoke_listeners ls e1 s1)
      else invoke_listeners ls e s)"

definition dispatchEvent :: "event \<Rightarrow> switch \<Rightarrow> event \<times> switch" where
  "dispatchEvent e s = invoke_listeners (listeners s) e s"

fun dispatch_all :: "event list \<Rightarrow> switch \<Rightarrow> switch" where
  "dispatch_all [] s = s"
| "dispatch_all (e # es) s = dispatch_all es (snd (dispatchEvent e s))"

definition click :: "switch \<Rightarrow> switch" where
  "click s = snd (dispatchEvent \<lparr>etype = ''click'', which = JNum 1, cancelable = True,
                                  defaultPrevented = False\<rparr> s)"

definition toggle :: "switch \<Rightarrow> switch" where
  "toggle s = click s"

definition connectedCallback :: "switch \<Rightarrow> switch" where
  "connectedCallback s =
     (let s1 = (if \<not> hasAttribute s ''role''
                then setAttribute ''role'' (JString (Str ''checkbox'')) s else s);
          s2 = (if \<not> hasAttribute s1 ''tabindex''
                then setAttribute ''tabindex'' (JNum 0) s1 else s1);
          s3 = (if \<not> hasAttribute s2 ''color''
                then setAttribute ''color'' (JString (Str ''info'')) s2 else s2);
          s4 = (if \<not> hasAttribute s3 ''on-text''
                then setAttribute ''on-text'' (JString (Str ''ON'')) s3 else s3);
          s5 = (if \<not> hasAttribute s4 ''off-text''
                then setAttribute ''off-text'' (JString (Str ''OFF'')) s4 else s4);
          s6 = (if \<not> hasAttribute s5 ''value''
                then setAttribute ''value'' (JNum 1) s5 else s5);
          s7 = set_height (JNum 24) s6;
          s8 = set_width (JNum 48) s7;
          s9 = set_checked (JBool (hasAttribute s8 ''checked'' \<or> True)) s8;
          s10 = set_disabled (JBool (hasAttribute s9 ''disabled'' \<or> False)) s9;
          s11 = set_readonly (JBool (hasAttribute s10 ''readonly'' \<or> False)) s10;
          s12 = addEventListener ''click'' Click_listener True s11;
          s13 = addEventListener ''keyup'' Keyup_listener True s12
      in s13)"

definition disconnectedCallback :: "switch \<Rightarrow> switch" where
  "disconnectedCallback s =
     (let s1 = removeEventListener ''click'' Click_listener True s;
          s2 = removeEventListener ''keyup'' Keyup_listener True s1
      in s2)"

text \<open>
  The element as the constructor leaves it, for the attributes written in the markup:
  the two checkboxes of type \<^verbatim>\<open>checkbox\<close>, the shadow one with
  \<^verbatim>\<open>tabindex="-1"\<close> from the template, no listeners. \<open>minimal\<close> is the element of
  \<^verbatim>\<open><cloud-switch></cloud-switch>\<close>; \<open>attached\<close> is a connected element, with the
  two listeners that \<^verbatim>\<open>connectedCallback\<close> registers.
\<close>

definition SwitchElement :: "(string \<rightharpoonup> domstring) \<Rightarrow> switch" where
  "SwitchElement markup =
     \<lparr>attributes = markup, classList = [], style = Map.empty, listeners = [],
      shadowCheck = [''type'' \<mapsto> Str ''checkbox'', ''tabindex'' \<mapsto> NumStr (- 1)],
      shadowCheck_readonly = JUndefined,
      label = [''label'' \<mapsto> Str ''''],
      handle_style = Map.empty,
      checkbox = [''type'' \<mapsto> Str ''checkbox''],
      checkbox_readonly = JUndefined\<rparr>"

definition minimal :: switch where
  "minimal = SwitchElement Map.empty"

definition attached :: switch where
  "attached = minimal\<lparr>listeners :=
     [(''click'', Click_listener, True), (''keyup'', Keyup_listener, True)]\<rparr>"

text \<open>
  \<open>locked\<close> is a connected element with the \<^verbatim>\<open>disabled\<close> attribute, and
  \<open>key_event k\<close> the release of the key with code \<open>k\<close>.
\<close>

definition locked :: switch where
  "locked = attached\<lparr>attributes := [''disabled'' \<mapsto> Str '''']\<rparr>"

definition key_event :: "rat \<Rightarrow> event" where
  "key_event k = \<lparr>etype = ''keyup'', which = JNum k, cancelable = True,
                   defaultPrevented = False\<rparr>"

subsection \<open>Notions used in the statements\<close>

text \<open>
  \<open>flags m\<close> is the presence of the three boolean attributes in an attribute map, and
  \<open>agree\<close> says that the host, the shadow checkbox and the appended checkbox have the
  same three flags.
\<close>

definition flags :: "(string \<rightharpoonup> domstring) \<Rightarrow> bool \<times> bool \<times> bool" where
  "flags m = (m ''checked'' \<noteq> None, m ''disabled'' \<noteq> None, m ''readonly'' \<noteq> None)"

definition agree :: "switch \<Rightarrow> bool" where
  "agree s =
     (flags (attributes s) = flags (shadowCheck s) \<and> flags (attributes s) = flags (checkbox s))"

text \<open>The values of the three boolean attributes on the three elements.\<close>

definition flag_values :: "switch \<Rightarrow> domstring option list" where
  "flag_values s =
     map (attributes s) [''checked'', ''disabled'', ''readonly''] @
     map (shadowCheck s) [''checked'', ''disabled'', ''readonly''] @
     map (checkbox s) [''checked'', ''disabled'', ''readonly'']"

text \<open>
  What a boolean setter does to the two checkboxes once the host attribute is in place:
  the attribute \<open>a\<close> is added with the empty string where it is absent (\<open>b\<close> true) or
  removed (\<open>b\<close> false). For \<^verbatim>\<open>readonly\<close> the property of each checkbox is assigned
  as well, where its attribute changes.
\<close>

definition put_absent ::
    "string \<Rightarrow> (string \<rightharpoonup> domstring) \<Rightarrow> (string \<rightharpoonup> domstring)" where
  "put_absent a m = (if m a = None then m(a \<mapsto> Str []) else m)"

definition mirror :: "string \<Rightarrow> bool \<Rightarrow> switch \<Rightarrow> switch" where
  "mirror a b s =
     s\<lparr>shadowCheck := (if b then put_absent a (shadowCheck s) else (shadowCheck s)(a := None)),
       checkbox := (if b then put_absent a (checkbox s) else (checkbox s)(a := None))\<rparr>"

definition mirror_readonly :: "bool \<Rightarrow> switch \<Rightarrow> switch" where
  "mirror_readonly b s =
     (mirror ''readonly'' b s)
       \<lparr>shadowCheck_readonly :=
          (if (shadowCheck s ''readonly'' = None) = b then JBool b else shadowCheck_readonly s),
        checkbox_readonly :=
          (if (checkbox s ''readonly'' = None) = b then JBool b else checkbox_readonly s)\<rparr>"

text \<open>
  \<open>settled a b s\<close>: the boolean attribute \<open>a\<close> is present on the host and on both
  checkboxes (\<open>b\<close> true), or absent from all three (\<open>b\<close> false).
\<close>

definition settled :: "string \<Rightarrow> bool \<Rightarrow> switch \<Rightarrow> bool" where
  "settled a b s =
     (hasAttribute s a = b \<and> (shadowCheck s a \<noteq> None) = b \<and> (checkbox s a \<noteq> None) = b)"

text \<open>
  The two declarations that \<^verbatim>\<open>set width\<close> and \<^verbatim>\<open>set height\<close> make after they
  have written the attribute.
\<close>

definition write_width :: "jsval \<Rightarrow> switch \<Rightarrow> switch" where
  "write_width v s =
     s\<lparr>style := setProperty ''width'' (Px (ToString v)) (style s),
       handle_style := setProperty ''width''
         (Px (Number_toString (js_times (ToNumber v) (Number (rounded (45 / 100)))))) (handle_style s)\<rparr>"

definition write_height :: "jsval \<Rightarrow> switch \<Rightarrow> switch" where
  "write_height v s =
     s\<lparr>style := setProperty ''height'' (Px (ToString v)) (style s),
       handle_style := setProperty ''height''
         (Px (Number_toString (js_minus (ToNumber v) (Number 4)))) (handle_style s)\<rparr>"

text \<open>The number of registrations of \<^verbatim>\<open>_click\<close> for click events.\<close>

definition click_flips :: "(string \<times> listener \<times> bool) list \<Rightarrow> nat" where
  "click_flips ls = length (filter (\<lambda>(t, l, c). t = ''click'' \<and> l = Click_listener) ls)"

section \<open>Selectors of the auxiliary updates\<close>

text \<open>
  The equations of the setters are taken out of the simplifier's rules above: each proof
  below unfolds one call at a time with \<open>subst\<close>. The lemmas of this section read the
  fields of an element after \<open>mirror\<close>, \<open>mirror_readonly\<close> and the class list updates.
\<close>

lemma put_absent_present [simp]: "put_absent a m a \<noteq> None"
  by (simp add: put_absent_def)

lemma put_absent_present_ex [simp]: "\<exists>y. put_absent a m a = Some y"
  by (simp add: put_absent_def)

lemma put_absent_other [simp]: "x \<noteq> a \<Longrightarrow> put_absent a m x = m x"
  by (simp add: put_absent_def)

lemma put_absent_idem [simp]: "m a \<noteq> None \<Longrightarrow> put_absent a m = m"
  by (auto simp add: put_absent_def)

lemma mirror_sel [simp]:
  "attributes (mirror a b s) = attributes s"
  "classList (mirror a b s) = classList s"
  "style (mirror a b s) = style s"
  "listeners (mirror a b s) = listeners s"
  "label (mirror a b s) = label s"
  "handle_style (mirror a b s) = handle_style s"
  "shadowCheck_readonly (mirror a b s) = shadowCheck_readonly s"
  "checkbox_readonly (mirror a b s) = checkbox_readonly s"
  "shadowCheck (mirror a b s) =
     (if b then put_absent a (shadowCheck s) else (shadowCheck s)(a := None))"
  "checkbox (mirror a b s) =
     (if b then put_absent a (checkbox s) else (checkbox s)(a := None))"
  by (simp_all add: mirror_def)

lemma mirror_readonly_sel [simp]:
  "attributes (mirror_readonly b s) = attributes s"
  "classList (mirror_readonly b s) = classList s"
  "style (mirror_readonly b s) = style s"
  "listeners (mirror_readonly b s) = listeners s"
  "label (mirror_readonly b s) = label s"
  "handle_style (mirror_readonly b s) = handle_style s"
  "shadowCheck (mirror_readonly b s) =
     (if b then put_absent ''readonly'' (shadowCheck s) else (shadowCheck s)(''readonly'' := None))"
  "checkbox (mirror_readonly b s) =
     (if b then put_absent ''readonly'' (checkbox s) else (checkbox s)(''readonly'' := None))"
  by (simp_all add: mirror_readonly_def)

lemma classList_add_sel [simp]:
  "attributes (classList_add t s) = attributes s"
  "style (classList_add t s) = style s"
  "listeners (classList_add t s) = listeners s"
  "label (classList_add t s) = label s"
  "handle_style (classList_add t s) = handle_style s"
  "shadowCheck_readonly (classList_add t s) = shadowCheck_readonly s"
  "checkbox_readonly (classList_add t s) = checkbox_readonly s"
  "shadowCheck (classList_add t s) = shadowCheck s"
  "checkbox (classList_add t s) = checkbox s"
  by (simp_all add: classList_add_def)

lemma classList_remove_sel [simp]:
  "attributes (classList_remove t s) = attributes s"
  "style (classList_remove t s) = style s"
  "listeners (classList_remove t s) = listeners s"
  "label (classList_remove t s) = label s"
  "handle_style (classList_remove t s) = handle_style s"
  "shadowCheck_readonly (classList_remove t s) = shadowCheck_readonly s"
  "checkbox_readonly (classList_remove t s) = checkbox_readonly s"
  "shadowCheck (classList_remove t s) = shadowCheck s"
  "checkbox (classList_remove t s) = checkbox s"
  by (simp_all add: classList_remove_def)

section \<open>The boolean setters in closed form\<close>

text \<open>
  For each of \<^verbatim>\<open>checked\<close>, \<^verbatim>\<open>disabled\<close> and \<^verbatim>\<open>readonly\<close> the recursion is
  followed from the inside out: the setter on an element whose host attribute already has
  the target presence, the callback on such an element, the host's \<open>setAttribute\<close> and
  \<open>removeAttribute\<close>, and last the setter on any element.
\<close>

lemma set_checked_sync:
  "hasAttribute s ''checked'' = ToBoolean v \<Longrightarrow>
   set_checked v s = mirror ''checked'' (ToBoolean v) s"
  apply (subst set_checked.simps)
  apply (cases "ToBoolean v")
   apply (simp_all add: Let_def mirror_def put_absent_def fun_upd_idem)
  done

lemma assign_checked: "assign ''checked'' v s = set_checked v s"
  by (subst assign.simps) simp

lemma callback_checked_sync:
  "hasAttribute s ''checked'' = (new \<noteq> None) \<Longrightarrow>
   attributeChangedCallback ''checked'' old new s =
     (if new \<noteq> None then classList_add ''checked'' (mirror ''checked'' True s)
      else classList_remove ''checked'' (mirror ''checked'' False s))"
  apply (subst attributeChangedCallback.simps)
  apply (simp add: Let_def assign_checked set_checked_sync)
  done

lemma setAttribute_checked:
  "setAttribute ''checked'' v s =
     classList_add ''checked''
       (mirror ''checked'' True (s\<lparr>attributes := (attributes s)(''checked'' \<mapsto> ToString v)\<rparr>))"
  apply (subst setAttribute.simps)
  apply (simp add: Let_def observedAttributes_def callback_checked_sync hasAttribute_def)
  done

lemma removeAttribute_checked:
  "removeAttribute ''checked'' s =
     (if hasAttribute s ''checked''
      then classList_remove ''checked''
        (mirror ''checked'' False (s\<lparr>attributes := (attributes s)(''checked'' := None)\<rparr>))
      else s)"
  apply (subst removeAttribute.simps)
  apply (auto simp add: Let_def observedAttributes_def callback_checked_sync hasAttribute_def)
  done

lemma set_checked_closed:
  "set_checked v s =
     (if hasAttribute s ''checked'' = ToBoolean v then mirror ''checked'' (ToBoolean v) s
      else if ToBoolean v
      then classList_add ''checked''
             (mirror ''checked'' True (s\<lparr>attributes := (attributes s)(''checked'' \<mapsto> Str [])\<rparr>))
      else classList_remove ''checked''
             (mirror ''checked'' False (s\<lparr>attributes := (attributes s)(''checked'' := None)\<rparr>)))"
proof (cases "hasAttribute s ''checked'' = ToBoolean v")
  case True
  then show ?thesis by (simp add: set_checked_sync)
next
  case False
  show ?thesis
  proof (cases "ToBoolean v")
    case True
    with False have h: "\<not> hasAttribute s ''checked''" by simp
    show ?thesis
      by (subst set_checked.simps) (simp add: Let_def True h setAttribute_checked)
  next
    case F: False
    with False have h: "hasAttribute s ''checked''" by simp
    show ?thesis
      by (subst set_checked.simps) (simp add: Let_def F h removeAttribute_checked)
  qed
qed

lemma set_disabled_sync:
  "hasAttribute s ''disabled'' = ToBoolean v \<Longrightarrow>
   set_disabled v s = mirror ''disabled'' (ToBoolean v) s"
  apply (subst set_disabled.simps)
  apply (cases "ToBoolean v")
   apply (simp_all add: Let_def mirror_def put_absent_def fun_upd_idem)
  done

lemma assign_disabled: "assign ''disabled'' v s = set_disabled v s"
  by (subst assign.simps) simp

lemma callback_disabled_sync:
  "hasAttribute s ''disabled'' = (new \<noteq> None) \<Longrightarrow>
   attributeChangedCallback ''disabled'' old new s =
     (if new \<noteq> None then classList_add ''disabled'' (mirror ''disabled'' True s)
      else classList_remove ''disabled'' (mirror ''disabled'' False s))"
  apply (subst attributeChangedCallback.simps)
  apply (simp add: Let_def assign_disabled set_disabled_sync)
  done

lemma setAttribute_disabled:
  "setAttribute ''disabled'' v s =
     classList_add ''disabled''
       (mirror ''disabled'' True (s\<lparr>attributes := (attributes s)(''disabled'' \<mapsto> ToString v)\<rparr>))"
  apply (subst setAttribute.simps)
  apply (simp add: Let_def observedAttributes_def callback_disabled_sync hasAttribute_def)
  done

lemma removeAttribute_disabled:
  "removeAttribute ''disabled'' s =
     (if hasAttribute s ''disabled''
      then classList_remove ''disabled''
        (mirror ''disabled'' False (s\<lparr>attributes := (attributes s)(''disabled'' := None)\<rparr>))
      else s)"
  apply (subst removeAttribute.simps)
  apply (auto simp add: Let_def observedAttributes_def callback_disabled_sync hasAttribute_def)
  done

lemma set_disabled_closed:
  "set_disabled v s =
     (if hasAttribute s ''disabled'' = ToBoolean v then mirror ''disabled'' (ToBoolean v) s
      else if ToBoolean v
      then classList_add ''disabled''
             (mirror ''disabled'' True (s\<lparr>attributes := (attributes s)(''disabled'' \<mapsto> Str [])\<rparr>))
      else classList_remove ''disabled''
             (mirror ''disabled'' False (s\<lparr>attributes := (attributes s)(''disabled'' := None)\<rparr>)))"
proof (cases "hasAttribute s ''disabled'' = ToBoolean v")
  case True
  then show ?thesis by (simp add: set_disabled_sync)
next
  case False
  show ?thesis
  proof (cases "ToBoolean v")
    case True
    with False have h: "\<not> hasAttribute s ''disabled''" by simp
    show ?thesis
      by (subst set_disabled.simps) (simp add: Let_def True h setAttribute_disabled)
  next
    case F: False
    with False have h: "hasAttribute s ''disabled''" by simp
    show ?thesis
      by (subst set_disabled.simps) (simp add: Let_def F h removeAttribute_disabled)
  qed
qed

lemma set_readonly_sync:
  "hasAttribute s ''readonly'' = ToBoolean v \<Longrightarrow>
   set_readonly v s = mirror_readonly (ToBoolean v) s"
  apply (subst set_readonly.simps)
  apply (cases "ToBoolean v")
   apply (simp_all add: Let_def mirror_readonly_def mirror_def put_absent_def fun_upd_idem)
  done

lemma assign_readonly: "assign ''readonly'' v s = set_readonly v s"
  by (subst assign.simps) simp

lemma callback_readonly_sync:
  "hasAttribute s ''readonly'' = (new \<noteq> None) \<Longrightarrow>
   attributeChangedCallback ''readonly'' old new s =
     (if new \<noteq> None then classList_add ''readonly'' (mirror_readonly True s)
      else classList_remove ''readonly'' (mirror_readonly False s))"
  apply (subst attributeChangedCallback.simps)
  apply (simp add: Let_def assign_readonly set_readonly_sync)
  done

lemma setAttribute_readonly:
  "setAttribute ''readonly'' v s =
     classList_add ''readonly''
       (mirror_readonly True (s\<lparr>attributes := (attributes s)(''readonly'' \<mapsto> ToString v)\<rparr>))"
  apply (subst setAttribute.simps)
  apply (simp add: Let_def observedAttributes_def callback_readonly_sync hasAttribute_def)
  done

lemma removeAttribute_readonly:
  "removeAttribute ''readonly'' s =
     (if hasAttribute s ''readonly''
      then classList_remove ''readonly''
        (mirror_readonly False (s\<lparr>attributes := (attributes s)(''readonly'' := None)\<rparr>))
      else s)"
  apply (subst removeAttribute.simps)
  apply (auto simp add: Let_def observedAttributes_def callback_readonly_sync hasAttribute_def)
  done

lemma set_readonly_closed:
  "set_readonly v s =
     (if hasAttribute s ''readonly'' = ToBoolean v then mirror_readonly (ToBoolean v) s
      else if ToBoolean v
      then classList_add ''readonly''
             (mirror_readonly True (s\<lparr>attributes := (attributes s)(''readonly'' \<mapsto> Str [])\<rparr>))
      else classList_remove ''readonly''
             (mirror_readonly False (s\<lparr>attributes := (attributes s)(''readonly'' := None)\<rparr>)))"
proof (cases "hasAttribute s ''readonly'' = ToBoolean v")
  case True
  then show ?thesis by (simp add: set_readonly_sync)
next
  case False
  show ?thesis
  proof (cases "ToBoolean v")
    case True
    with False have h: "\<not> hasAttribute s ''readonly''" by simp
    show ?thesis
      by (subst set_readonly.simps) (simp add: Let_def True h setAttribute_readonly)
  next
    case F: False
    with False have h: "hasAttribute s ''readonly''" by simp
    show ?thesis
      by (subst set_readonly.simps) (simp add: Let_def F h removeAttribute_readonly)
  qed
qed

section \<open>Setters of string attributes leave the flags alone\<close>

text \<open>
  By computation induction over the sixteen functions at once: the setters of the string
  attributes, and the attribute methods and the callback when run for a name other than
  the three boolean ones, change none of the three boolean attributes on any of the three
  elements. The induction rule asks for a statement about every function; for the boolean
  setters it is a trivial one here.
\<close>

lemmas switch_induct = set_width_set_height_set_color_set_on_text_set_onText_set_off_text_set_offText_set_name_set_value_set_checked_set_disabled_set_readonly_assign_setAttribute_removeAttribute_attributeChangedCallback.induct

lemma flag_values_upd [simp]:
  "flag_values (s\<lparr>style := x\<rparr>) = flag_values s"
  "flag_values (s\<lparr>handle_style := x\<rparr>) = flag_values s"
  "flag_values (s\<lparr>label := y\<rparr>) = flag_values s"
  "flag_values (s\<lparr>listeners := w\<rparr>) = flag_values s"
  "\<not> is_boolean_attr a \<Longrightarrow>
     flag_values (s\<lparr>attributes := (attributes s)(a := z)\<rparr>) = flag_values s"
  "\<not> is_boolean_attr a \<Longrightarrow>
     flag_values (s\<lparr>checkbox := (checkbox s)(a := z)\<rparr>) = flag_values s"
  by (auto simp add: flag_values_def is_boolean_attr_def)

lemma frame_all:
  "flag_values (set_width v1 s1) = flag_values s1"
  "flag_values (set_height v2 s2) = flag_values s2"
  "flag_values (set_color v3 s3) = flag_values s3"
  "flag_values (set_on_text v4 s4) = flag_values s4"
  "flag_values (set_onText v5 s5) = flag_values s5"
  "flag_values (set_off_text v6 s6) = flag_values s6"
  "flag_values (set_offText v7 s7) = flag_values s7"
  "flag_values (set_name v8 s8) = flag_values s8"
  "flag_values (set_value v9 s9) = flag_values s9"
  "set_checked v10 s10 = set_checked v10 s10"
  "set_disabled v11 s11 = set_disabled v11 s11"
  "set_readonly v12 s12 = set_readonly v12 s12"
  "\<not> is_boolean_attr p \<longrightarrow> flag_values (assign p v13 s13) = flag_values s13"
  "\<not> is_boolean_attr n14 \<longrightarrow> flag_values (setAttribute n14 v14 s14) = flag_values s14"
  "\<not> is_boolean_attr n15 \<longrightarrow> flag_values (removeAttribute n15 s15) = flag_values s15"
  "\<not> is_boolean_attr a16 \<longrightarrow>
     flag_values (attributeChangedCallback a16 old new s16) = flag_values s16"
proof (induct v1 s1 and v2 s2 and v3 s3 and v4 s4 and v5 s5 and v6 s6 and v7 s7 and v8 s8
    and v9 s9 and v10 s10 and v11 s11 and v12 s12 and p v13 s13 and n14 v14 s14 and n15 s15
    and a16 old new s16 rule: switch_induct)
  case (1 v s)
  then show ?case
    by (subst set_width.simps) (simp add: Let_def is_boolean_attr_def)
next
  case (2 v s)
  then show ?case
    by (subst set_height.simps) (simp add: Let_def is_boolean_attr_def)
next
  case (3 v s)
  then show ?case
    by (subst set_color.simps) (simp add: Let_def is_boolean_attr_def)
next
  case (4 v s)
  then show ?case
    by (subst set_on_text.simps) (simp add: Let_def is_boolean_attr_def)
next
  case (5 v s)
  then show ?case
    by (subst set_onText.simps) (simp add: Let_def is_boolean_attr_def)
next
  case (6 v s)
  then show ?case
    by (subst set_off_text.simps) (simp add: Let_def is_boolean_attr_def)
next
  case (7 v s)
  then show ?case
    by (subst set_offText.simps) (simp add: Let_def is_boolean_attr_def)
next
  case (8 v s)
  then show ?case
    by (subst set_name.simps) (simp add: Let_def is_boolean_attr_def)
next
  case (9 v s)
  then show ?case
    by (subst set_value.simps) (simp add: Let_def is_boolean_attr_def)
next
  case (10 v s)
  then show ?case by simp
next
  case (11 v s)
  then show ?case by simp
next
  case (12 v s)
  then show ?case by simp
next
  case (13 p v s)
  then show ?case
    by (subst assign.simps) (simp add: is_boolean_attr_def)
next
  case (14 name v s)
  then show ?case
    by (subst setAttribute.simps) (simp add: Let_def)
next
  case (15 name s)
  then show ?case
    by (subst removeAttribute.simps) (simp add: Let_def split: option.splits)
next
  case (16 attr oldValue newValue s)
  then show ?case
    by (subst attributeChangedCallback.simps) (simp add: Let_def is_boolean_attr_def)
qed

text \<open>None of the sixteen functions touches the listener list.\<close>

lemma listeners_all:
  "listeners (set_width v1 s1) = listeners s1"
  "listeners (set_height v2 s2) = listeners s2"
  "listeners (set_color v3 s3) = listeners s3"
  "listeners (set_on_text v4 s4) = listeners s4"
  "listeners (set_onText v5 s5) = listeners s5"
  "listeners (set_off_text v6 s6) = listeners s6"
  "listeners (set_offText v7 s7) = listeners s7"
  "listeners (set_name v8 s8) = listeners s8"
  "listeners (set_value v9 s9) = listeners s9"
  "listeners (set_checked v10 s10) = listeners s10"
  "listeners (set_disabled v11 s11) = listeners s11"
  "listeners (set_readonly v12 s12) = listeners s12"
  "listeners (assign p v13 s13) = listeners s13"
  "listeners (setAttribute n14 v14 s14) = listeners s14"
  "listeners (removeAttribute n15 s15) = listeners s15"
  "listeners (attributeChangedCallback a16 old new s16) = listeners s16"
proof (induct v1 s1 and v2 s2 and v3 s3 and v4 s4 and v5 s5 and v6 s6 and v7 s7 and v8 s8
    and v9 s9 and v10 s10 and v11 s11 and v12 s12 and p v13 s13 and n14 v14 s14 and n15 s15
    and a16 old new s16 rule: switch_induct)
  case (1 v s)
  then show ?case
    by (subst set_width.simps) (simp add: Let_def)
next
  case (2 v s)
  then show ?case
    by (subst set_height.simps) (simp add: Let_def)
next
  case (3 v s)
  then show ?case
    by (subst set_color.simps) (simp add: Let_def)
next
  case (4 v s)
  then show ?case
    by (subst set_on_text.simps) (simp add: Let_def)
next
  case (5 v s)
  then show ?case
    by (subst set_onText.simps) (simp add: Let_def)
next
  case (6 v s)
  then show ?case
    by (subst set_off_text.simps) (simp add: Let_def)
next
  case (7 v s)
  then show ?case
    by (subst set_offText.simps) (simp add: Let_def)
next
  case (8 v s)
  then show ?case
    by (subst set_name.simps) (simp add: Let_def)
next
  case (9 v s)
  then show ?case
    by (subst set_value.simps) (simp add: Let_def)
next
  case (10 v s)
  then show ?case by (simp add: set_checked_closed)
next
  case (11 v s)
  then show ?case by (simp add: set_disabled_closed)
next
  case (12 v s)
  then show ?case by (simp add: set_readonly_closed)
next
  case (13 p v s)
  then show ?case
    by (subst assign.simps) simp
next
  case (14 name v s)
  then show ?case
    by (subst setAttribute.simps) (simp add: Let_def)
next
  case (15 name s)
  then show ?case
    by (subst removeAttribute.simps) (simp add: Let_def split: option.splits)
next
  case (16 attr oldValue newValue s)
  show ?case
  proof (cases "attr = ''checked'' \<or> attr = ''disabled'' \<or> attr = ''readonly''")
    case True
    with 16(1) [OF True refl] show ?thesis
      by (subst attributeChangedCallback.simps) (cases newValue; simp add: Let_def)
  next
    case False
    with 16(2) [OF False] show ?thesis
      by (subst attributeChangedCallback.simps) (simp add: Let_def)
  qed
qed

section \<open>Agreement of the three elements\<close>

lemma agree_flag_values: "flag_values s' = flag_values s \<Longrightarrow> agree s' = agree s"
  by (simp add: agree_def flags_def flag_values_def)

lemma agree_classList [simp]:
  "agree (classList_add t s) = agree s"
  "agree (classList_remove t s) = agree s"
  by (simp_all add: agree_def)

lemma agree_set_checked: "agree s \<Longrightarrow> agree (set_checked v s)"
  by (simp add: set_checked_closed agree_def flags_def hasAttribute_def) blast

lemma agree_set_disabled: "agree s \<Longrightarrow> agree (set_disabled v s)"
  by (simp add: set_disabled_closed agree_def flags_def hasAttribute_def) blast

lemma agree_set_readonly: "agree s \<Longrightarrow> agree (set_readonly v s)"
  by (simp add: set_readonly_closed agree_def flags_def hasAttribute_def) blast

lemma agree_mirror_put:
  "is_boolean_attr a \<Longrightarrow> agree s \<Longrightarrow>
   agree (mirror a True (s\<lparr>attributes := (attributes s)(a \<mapsto> d)\<rparr>))"
  unfolding is_boolean_attr_def
  by (elim disjE; simp add: agree_def flags_def; blast)

lemma agree_mirror_del:
  "is_boolean_attr a \<Longrightarrow> agree s \<Longrightarrow>
   agree (mirror a False (s\<lparr>attributes := (attributes s)(a := None)\<rparr>))"
  unfolding is_boolean_attr_def
  by (elim disjE; simp add: agree_def flags_def; blast)

lemma agree_mirror_readonly [simp]: "agree (mirror_readonly b s) = agree (mirror ''readonly'' b s)"
  by (simp add: agree_def)

lemma agree_assign: "agree s \<Longrightarrow> agree (assign p v s)"
proof -
  assume a: "agree s"
  consider "p = ''checked''" | "p = ''disabled''" | "p = ''readonly''" | "\<not> is_boolean_attr p"
    unfolding is_boolean_attr_def by blast
  then show ?thesis
  proof cases
    case 1
    with a show ?thesis by (simp add: assign_checked agree_set_checked)
  next
    case 2
    with a show ?thesis by (simp add: assign_disabled agree_set_disabled)
  next
    case 3
    with a show ?thesis by (simp add: assign_readonly agree_set_readonly)
  next
    case 4
    with a show ?thesis
      using frame_all(13) [of p v s] agree_flag_values [of "assign p v s" s] by simp
  qed
qed

lemma agree_attributeChangedCallback:
  "agree s \<Longrightarrow> agree (attributeChangedCallback attr old new s)"
  by (subst attributeChangedCallback.simps) (simp add: Let_def agree_assign)

lemma agree_setAttribute: "agree s \<Longrightarrow> agree (setAttribute name v s)"
proof -
  assume a: "agree s"
  consider "name = ''checked''" | "name = ''disabled''" | "name = ''readonly''"
    | "\<not> is_boolean_attr name"
    unfolding is_boolean_attr_def by blast
  then show ?thesis
  proof cases
    case 1
    with a show ?thesis by (simp add: setAttribute_checked agree_mirror_put is_boolean_attr_def)
  next
    case 2
    with a show ?thesis by (simp add: setAttribute_disabled agree_mirror_put is_boolean_attr_def)
  next
    case 3
    with a show ?thesis by (simp add: setAttribute_readonly agree_mirror_put is_boolean_attr_def)
  next
    case 4
    with a show ?thesis
      using frame_all(14) [of name v s] agree_flag_values [of "setAttribute name v s" s] by simp
  qed
qed

lemma agree_removeAttribute: "agree s \<Longrightarrow> agree (removeAttribute name s)"
proof -
  assume a: "agree s"
  consider "name = ''checked''" | "name = ''disabled''" | "name = ''readonly''"
    | "\<not> is_boolean_attr name"
    unfolding is_boolean_attr_def by blast
  then show ?thesis
  proof cases
    case 1
    with a show ?thesis by (simp add: removeAttribute_checked agree_mirror_del is_boolean_attr_def)
  next
    case 2
    with a show ?thesis by (simp add: removeAttribute_disabled agree_mirror_del is_boolean_attr_def)
  next
    case 3
    with a show ?thesis by (simp add: removeAttribute_readonly agree_mirror_del is_boolean_attr_def)
  next
    case 4
    with a show ?thesis
      using frame_all(15) [of name s] agree_flag_values [of "removeAttribute name s" s] by simp
  qed
qed

section \<open>What the boolean setters do to the host attributes\<close>

lemma attributes_set_checked:
  "attributes (set_checked v s) a =
     (if a = ''checked''
      then (if ToBoolean v
            then (case attributes s ''checked'' of None \<Rightarrow> Some (Str []) | Some d \<Rightarrow> Some d)
            else None)
      else attributes s a)"
  by (auto simp add: set_checked_closed hasAttribute_def split: option.splits)

lemma attributes_set_disabled:
  "attributes (set_disabled v s) a =
     (if a = ''disabled''
      then (if ToBoolean v
            then (case attributes s ''disabled'' of None \<Rightarrow> Some (Str []) | Some d \<Rightarrow> Some d)
            else None)
      else attributes s a)"
  by (auto simp add: set_disabled_closed hasAttribute_def split: option.splits)

lemma attributes_set_readonly:
  "attributes (set_readonly v s) a =
     (if a = ''readonly''
      then (if ToBoolean v
            then (case attributes s ''readonly'' of None \<Rightarrow> Some (Str []) | Some d \<Rightarrow> Some d)
            else None)
      else attributes s a)"
  by (auto simp add: set_readonly_closed hasAttribute_def split: option.splits)

lemma getters_set_checked [simp]:
  "checked (set_checked v s) = ToBoolean v"
  "disabled (set_checked v s) = disabled s"
  "readonly (set_checked v s) = readonly s"
  by (simp_all add: checked_def disabled_def readonly_def hasAttribute_def
      attributes_set_checked split: option.splits)

lemma getters_set_disabled [simp]:
  "checked (set_disabled v s) = checked s"
  "disabled (set_disabled v s) = ToBoolean v"
  "readonly (set_disabled v s) = readonly s"
  by (simp_all add: checked_def disabled_def readonly_def hasAttribute_def
      attributes_set_disabled split: option.splits)

lemma getters_set_readonly [simp]:
  "checked (set_readonly v s) = checked s"
  "disabled (set_readonly v s) = disabled s"
  "readonly (set_readonly v s) = ToBoolean v"
  by (simp_all add: checked_def disabled_def readonly_def hasAttribute_def
      attributes_set_readonly split: option.splits)

section \<open>Listeners\<close>

text \<open>
  On a disabled or read-only element every listener returns the element as it is. On an
  enabled one, a click event inverts the checked state once for each registration of
  \<^verbatim>\<open>_click\<close> for clicks; a registration of \<^verbatim>\<open>_keyup\<close> for clicks does nothing,
  the event of \<^verbatim>\<open>click()\<close> being no key release.
\<close>

lemma u_click_blocked: "readonly s \<or> disabled s \<Longrightarrow> snd (snd (u_click e s)) = s"
  by (simp add: u_click_def)

lemma u_keyup_blocked: "readonly s \<or> disabled s \<Longrightarrow> snd (snd (u_keyup e s)) = s"
  by (simp add: u_keyup_def)

lemma call_listener_blocked: "readonly s \<or> disabled s \<Longrightarrow> snd (call_listener l e s) = s"
  by (cases l) (simp_all add: u_click_def u_keyup_def)

lemma invoke_listeners_blocked:
  "readonly s \<or> disabled s \<Longrightarrow> snd (invoke_listeners ls e s) = s"
proof (induction ls arbitrary: e)
  case Nil
  then show ?case by simp
next
  case (Cons x ls)
  obtain t l c where x: "x = (t, l, c)" by (cases x)
  obtain e1 s1 where r: "call_listener l e s = (e1, s1)" by (cases "call_listener l e s")
  from Cons.prems have "s1 = s"
    using call_listener_blocked [of s l e] r by simp
  with Cons x r show ?case by simp
qed

lemma toggle_blocked: "readonly s \<or> disabled s \<Longrightarrow> toggle s = s"
  by (simp add: toggle_def click_def dispatchEvent_def invoke_listeners_blocked)

lemma invoke_listeners_click:
  assumes "\<not> readonly s" "\<not> disabled s" "etype e = ''click''"
    "which e \<noteq> JNum 32" "which e \<noteq> JNum 13"
  shows "fst (invoke_listeners ls e s) = e \<and>
         checked (snd (invoke_listeners ls e s)) = (checked s \<noteq> odd (click_flips ls)) \<and>
         readonly (snd (invoke_listeners ls e s)) = readonly s \<and>
         disabled (snd (invoke_listeners ls e s)) = disabled s \<and>
         listeners (snd (invoke_listeners ls e s)) = listeners s"
  using assms
proof (induction ls arbitrary: s)
  case Nil
  then show ?case by (simp add: click_flips_def)
next
  case (Cons x ls)
  obtain t l c where x: "x = (t, l, c)" by (cases x)
  show ?case
  proof (cases "t = ''click''")
    case False
    with Cons x show ?thesis by (simp add: click_flips_def)
  next
    case True
    show ?thesis
    proof (cases l)
      case Click_listener
      let ?s1 = "set_checked (JBool (\<not> checked s)) s"
      have c: "call_listener l e s = (e, ?s1)"
        using Cons.prems Click_listener by (simp add: u_click_def)
      have en: "\<not> readonly ?s1" "\<not> disabled ?s1"
        using Cons.prems by simp_all
      from Cons.IH [OF en Cons.prems(3,4,5)] c True x Click_listener Cons.prems(3)
      show ?thesis
        by (auto simp add: click_flips_def listeners_all)
    next
      case Keyup_listener
      have c: "call_listener l e s = (e, s)"
        using Cons.prems Keyup_listener by (simp add: u_keyup_def)
      from Cons.IH [OF Cons.prems] c True x Keyup_listener Cons.prems(3)
      show ?thesis
        by (simp add: click_flips_def)
    qed
  qed
qed

lemma toggle_enabled:
  assumes "\<not> readonly s" "\<not> disabled s"
  shows "checked (toggle s) = (checked s \<noteq> odd (click_flips (listeners s)))"
    and "readonly (toggle s) = readonly s"
    and "disabled (toggle s) = disabled s"
    and "listeners (toggle s) = listeners s"
  using invoke_listeners_click [OF assms, of
      "\<lparr>etype = ''click'', which = JNum 1, cancelable = True, defaultPrevented = False\<rparr>"
      "listeners s"]
  by (simp_all add: toggle_def click_def dispatchEvent_def)

lemma dispatch_all_no_listeners: "listeners s = [] \<Longrightarrow> dispatch_all es s = s"
  by (induction es) (simp_all add: dispatchEvent_def)

lemma disconnected_listeners:
  "set (listeners s) \<subseteq> {(''click'', Click_listener, True), (''keyup'', Keyup_listener, True)}
   \<Longrightarrow> listeners (disconnectedCallback s) = []"
proof -
  assume a: "set (listeners s) \<subseteq>
    {(''click'', Click_listener, True), (''keyup'', Keyup_listener, True)}"
  have "set (listeners (disconnectedCallback s)) = {}"
    using a by (auto simp add: disconnectedCallback_def removeEventListener_def Let_def)
  then show ?thesis by simp
qed

section \<open>The color setter in closed form\<close>

lemma callback_same:
  "\<not> is_boolean_attr a \<Longrightarrow> attributeChangedCallback a x x s = s"
  by (subst attributeChangedCallback.simps) (simp add: is_boolean_attr_def)

lemma setAttribute_color_sync:
  "attributes s ''color'' = Some (ToString v) \<Longrightarrow> setAttribute ''color'' v s = s"
  by (subst setAttribute.simps)
    (simp add: Let_def observedAttributes_def callback_same is_boolean_attr_def fun_upd_idem)

lemma set_color_sync:
  "attributes s ''color'' = Some (ToString v) \<Longrightarrow> set_color v s = s"
  by (subst set_color.simps) (simp add: setAttribute_color_sync)

lemma assign_color: "assign ''color'' v s = set_color v s"
  by (subst assign.simps) simp

lemma callback_color_sync:
  "attributes s ''color'' = Some d \<Longrightarrow> attributeChangedCallback ''color'' old (Some d) s = s"
  by (subst attributeChangedCallback.simps) (simp add: assign_color set_color_sync)

lemma setAttribute_color:
  "setAttribute ''color'' v s = s\<lparr>attributes := (attributes s)(''color'' \<mapsto> ToString v)\<rparr>"
  by (subst setAttribute.simps) (simp add: Let_def observedAttributes_def callback_color_sync)

lemma set_color_closed:
  "set_color v s =
     (if Array_includes VALID_COLORS v
      then s\<lparr>attributes := (attributes s)(''color'' \<mapsto> ToString v)\<rparr> else s)"
  by (subst set_color.simps) (simp add: setAttribute_color)

section \<open>The two checkboxes under the boolean setters\<close>

lemma checkbox_set_disabled:
  "ToBoolean v \<Longrightarrow> checkbox (set_disabled v s) ''disabled'' \<noteq> None"
  by (simp add: set_disabled_closed)

lemma checkbox_set_readonly:
  "checkbox (set_readonly v s) ''disabled'' = checkbox s ''disabled''"
  by (simp add: set_readonly_closed)

lemma shadowCheck_set_readonly:
  "shadowCheck (set_readonly v s) ''disabled'' = shadowCheck s ''disabled''"
  by (simp add: set_readonly_closed)

section \<open>Rounding to a double\<close>

text \<open>
  \<open>exponent_bounds\<close> shows that \<open>exponent x\<close> is the binary exponent of \<open>x\<close>:
  \<open>2\<^sup>e \<le> \<bar>x\<bar> < 2\<^sup>e\<^sup>+\<^sup>1\<close>. The lemmas after it compute a rounding from the exponent
  \<open>e\<close> and the significand \<open>m\<close>: in the normal range, \<open>rounded x\<close> is \<open>m * 2\<^sup>e\<^sup>-\<^sup>5\<^sup>2\<close> when
  \<open>x / 2\<^sup>e\<^sup>-\<^sup>5\<^sup>2\<close> is less than a half away from the integer \<open>m\<close>.
\<close>

lemma pow2_powi: "pow2 e = 2 powi e"
  by (simp add: pow2_def power_int_def field_simps)

lemma pow2_pos: "0 < pow2 e"
  by (simp add: pow2_def)

lemma pow2_nonzero [simp]: "pow2 e \<noteq> 0"
  using pow2_pos [of e] by simp

lemma pow2_strict_mono: "a < b \<Longrightarrow> pow2 a < pow2 b"
  by (simp add: pow2_powi power_int_strict_increasing)

lemma pow2_mono: "a \<le> b \<Longrightarrow> pow2 a \<le> pow2 b"
  by (simp add: pow2_powi power_int_increasing)

lemma pow2_add: "pow2 (a + b) = pow2 a * pow2 b"
  by (simp add: pow2_powi power_int_add)

lemma pow2_diff: "pow2 (a - b) = pow2 a / pow2 b"
  by (simp add: pow2_powi power_int_diff)

lemma of_int_bitlen_bounds:
  assumes "0 < a"
  shows "pow2 (bitlen a - 1) \<le> of_int a" and "of_int a < pow2 (bitlen a)"
proof -
  from bitlen_bounds [OF assms] have l: "2 ^ nat (bitlen a - 1) \<le> a" and u: "a < 2 ^ nat (bitlen a)"
    by simp_all
  have p: "0 < bitlen a"
  proof (rule ccontr)
    assume "\<not> 0 < bitlen a"
    then have "nat (bitlen a) = 0" by simp
    with u assms show False by simp
  qed
  have "(of_int (2 ^ nat (bitlen a - 1)) :: rat) \<le> of_int a"
    using l by (simp only: of_int_le_iff)
  then show "pow2 (bitlen a - 1) \<le> of_int a"
    using p by (simp add: pow2_def)
  have "(of_int a :: rat) < of_int (2 ^ nat (bitlen a))"
    using u by (simp only: of_int_less_iff)
  then show "of_int a < pow2 (bitlen a)"
    using p by (simp add: pow2_def)
qed

lemma exponent_bounds:
  assumes "x \<noteq> 0"
  shows "pow2 (exponent x) \<le> \<bar>x\<bar> \<and> \<bar>x\<bar> < pow2 (exponent x + 1)"
proof -
  obtain a b where q: "quotient_of \<bar>x\<bar> = (a, b)" by (cases "quotient_of \<bar>x\<bar>")
  have b: "0 < b" using quotient_of_denom_pos [OF q] .
  have x: "\<bar>x\<bar> = of_int a / of_int b" using quotient_of_div [OF q] .
  have pos: "0 < \<bar>x\<bar>" using assms by simp
  have a: "0 < a"
  proof (rule ccontr)
    assume "\<not> 0 < a"
    then have "(of_int a :: rat) \<le> 0" by simp
    with b have "(of_int a :: rat) / of_int b \<le> 0" by (simp add: divide_nonpos_pos)
    with x pos show False by simp
  qed
  let ?d = "bitlen a - bitlen b"
  have bb: "(0::rat) < of_int b" using b by simp
  have up: "\<bar>x\<bar> < pow2 (?d + 1)"
  proof -
    have "of_int a < pow2 (bitlen a)" using of_int_bitlen_bounds(2) [OF a] .
    moreover have "pow2 (bitlen b - 1) \<le> of_int b" using of_int_bitlen_bounds(1) [OF b] .
    ultimately have "of_int a * pow2 (bitlen b - 1) < pow2 (bitlen a) * of_int b"
      using bb a pow2_pos [of "bitlen b - 1"] by (intro mult_less_le_imp_less) simp_all
    then have "of_int a / of_int b < pow2 (bitlen a) / pow2 (bitlen b - 1)"
      using bb pow2_pos [of "bitlen b - 1"] by (simp add: field_simps)
    also have "\<dots> = pow2 (?d + 1)"
      by (simp add: pow2_diff [symmetric] algebra_simps)
    finally show ?thesis using x by simp
  qed
  have lo: "pow2 (?d - 1) \<le> \<bar>x\<bar>"
  proof -
    have "pow2 (bitlen a - 1) \<le> of_int a" using of_int_bitlen_bounds(1) [OF a] .
    moreover have "of_int b < pow2 (bitlen b)" using of_int_bitlen_bounds(2) [OF b] .
    ultimately have "pow2 (bitlen a - 1) * of_int b \<le> of_int a * pow2 (bitlen b)"
      using bb a pow2_pos [of "bitlen a - 1"] by (intro mult_mono) (simp_all add: less_imp_le)
    then have "pow2 (bitlen a - 1) / pow2 (bitlen b) \<le> of_int a / of_int b"
      using bb pow2_pos [of "bitlen b"] by (simp add: field_simps)
    moreover have "pow2 (bitlen a - 1) / pow2 (bitlen b) = pow2 (?d - 1)"
      by (simp add: pow2_diff [symmetric] algebra_simps)
    ultimately show ?thesis using x by simp
  qed
  show ?thesis
    using up lo q by (simp add: exponent_def Let_def)
qed

lemma exponent_eq:
  assumes "pow2 e \<le> \<bar>x\<bar>" "\<bar>x\<bar> < pow2 (e + 1)"
  shows "exponent x = e"
proof -
  have "0 < \<bar>x\<bar>" using assms(1) pow2_pos [of e] by linarith
  then have nz: "x \<noteq> 0" by simp
  from exponent_bounds [OF nz]
  have l: "pow2 (exponent x) \<le> \<bar>x\<bar>" and u: "\<bar>x\<bar> < pow2 (exponent x + 1)" by simp_all
  have "pow2 e < pow2 (exponent x + 1)" using assms(1) u by simp
  then have 1: "e < exponent x + 1"
    using pow2_mono [of "exponent x + 1" e] by (cases "e < exponent x + 1") auto
  have "pow2 (exponent x) < pow2 (e + 1)" using l assms(2) by simp
  then have 2: "exponent x < e + 1"
    using pow2_mono [of "e + 1" "exponent x"] by (cases "exponent x < e + 1") auto
  from 1 2 show ?thesis by simp
qed

lemma round_ties_even_eq:
  assumes "\<bar>y - of_int m\<bar> < 1 / 2"
  shows "round_ties_even y = m"
proof (cases "of_int m \<le> y")
  case True
  with assms have f: "\<lfloor>y\<rfloor> = m" by (intro floor_unique) (simp_all add: abs_less_iff)
  with assms True show ?thesis by (simp add: round_ties_even_def Let_def abs_less_iff)
next
  case False
  with assms have f: "\<lfloor>y\<rfloor> = m - 1" by (intro floor_unique) (simp_all add: abs_less_iff)
  with assms False show ?thesis by (simp add: round_ties_even_def Let_def abs_less_iff)
qed

lemma rounded_eq:
  assumes "pow2 e \<le> \<bar>x\<bar>" "\<bar>x\<bar> < pow2 (e + 1)" "- 1022 \<le> e"
    and "\<bar>x / pow2 (e - 52) - of_int m\<bar> < 1 / 2"
  shows "rounded x = of_int m * pow2 (e - 52)"
proof -
  have "0 < \<bar>x\<bar>" using assms(1) pow2_pos [of e] by linarith
  then have nz: "x \<noteq> 0" by simp
  have q: "quantum x = pow2 (e - 52)"
    using exponent_eq [OF assms(1,2)] assms(3) by (simp add: quantum_def)
  show ?thesis
    using nz q round_ties_even_eq [OF assms(4)] by (simp add: rounded_def)
qed

lemma round64_eq:
  assumes "rounded x = r" "\<bar>r\<bar> < pow2 1024"
  shows "round64 x = Number r"
  using assms by (auto simp add: round64_def Let_def abs_less_iff)

lemma is_double_eq:
  assumes "pow2 e \<le> \<bar>x\<bar>" "\<bar>x\<bar> < pow2 (e + 1)" "- 1022 \<le> e" "e \<le> 1023"
    and "x / pow2 (e - 52) = of_int m"
  shows "is_double x"
proof -
  have "\<bar>x / pow2 (e - 52) - of_int m\<bar> < 1 / 2" using assms(5) by simp
  from rounded_eq [OF assms(1,2,3) this] assms(5)
  have r: "rounded x = x" by (simp add: nonzero_divide_eq_eq)
  have "pow2 (e + 1) \<le> pow2 1024" using assms(4) by (intro pow2_mono) simp
  with assms(2) have "\<bar>x\<bar> < pow2 1024" by simp
  with r show ?thesis by (simp add: is_double_def round64_eq)
qed

section \<open>The doubles of the examples\<close>

text \<open>
  The doubles that the literals \<^verbatim>\<open>0.45\<close>, \<^verbatim>\<open>4.1\<close>, \<^verbatim>\<open>21.6\<close>,
  \<^verbatim>\<open>5.8500000000000005\<close> and \<^verbatim>\<open>0.09999999999999964\<close> denote, and the products and
  the difference that the examples of the size setters below need.
\<close>

lemma literal_045: "rounded (45 / 100) = 8106479329266893 / 2 ^ 54"
  using rounded_eq [where x = "45 / 100" and e = "- 2" and m = 8106479329266893]
  by (simp add: pow2_def)

lemma double_20: "is_double 20"
  by (rule is_double_eq [where e = 4 and m = "20 * 2 ^ 48"]) (simp_all add: pow2_def)

lemma double_24: "is_double 24"
  by (rule is_double_eq [where e = 4 and m = "24 * 2 ^ 48"]) (simp_all add: pow2_def)

lemma double_44: "is_double 44"
  by (rule is_double_eq [where e = 5 and m = "44 * 2 ^ 47"]) (simp_all add: pow2_def)

lemma double_48: "is_double 48"
  by (rule is_double_eq [where e = 5 and m = "48 * 2 ^ 47"]) (simp_all add: pow2_def)

lemma double_13: "is_double 13"
  by (rule is_double_eq [where e = 3 and m = "13 * 2 ^ 49"]) (simp_all add: pow2_def)

lemma double_minus_10: "is_double (- 10)"
  by (rule is_double_eq [where e = 3 and m = "- 10 * 2 ^ 49"]) (simp_all add: pow2_def)

lemma literal_4_1: "rounded (41 / 10) = 4616189618054758 / 2 ^ 50"
  using rounded_eq [where x = "41 / 10" and e = 2 and m = 4616189618054758]
  by (simp add: pow2_def)

lemma double_4_1: "is_double (rounded (41 / 10))"
  unfolding literal_4_1
  by (rule is_double_eq [where e = 2 and m = 4616189618054758]) (simp_all add: pow2_def)

lemma literal_21_6: "rounded (216 / 10) = 6079859496950170 / 2 ^ 48"
  using rounded_eq [where x = "216 / 10" and e = 4 and m = 6079859496950170]
  by (simp add: pow2_def)

lemma literal_5_85: "rounded (58500000000000005 / 10 ^ 16) = 6586514455029351 / 2 ^ 50"
  using rounded_eq [where x = "58500000000000005 / 10 ^ 16" and e = 2 and m = 6586514455029351]
  by (simp add: pow2_def)

lemma literal_0_0999: "rounded (9999999999999964 / 10 ^ 17) = 7205759403792768 / 2 ^ 56"
  using rounded_eq [where x = "9999999999999964 / 10 ^ 17" and e = "- 4"
      and m = 7205759403792768]
  by (simp add: pow2_def)

lemma times_48: "round64 (48 * rounded (45 / 100)) = Number (rounded (216 / 10))"
  unfolding literal_045 literal_21_6
  by (rule round64_eq,
      insert rounded_eq [where x = "48 * (8106479329266893 / 2 ^ 54)" and e = 4
        and m = 6079859496950170])
    (simp_all add: pow2_def)

lemma times_13:
  "round64 (13 * rounded (45 / 100)) = Number (rounded (58500000000000005 / 10 ^ 16))"
  unfolding literal_045 literal_5_85
  by (rule round64_eq,
      insert rounded_eq [where x = "13 * (8106479329266893 / 2 ^ 54)" and e = 2
        and m = 6586514455029351])
    (simp_all add: pow2_def)

lemma times_minus_10: "round64 (- 10 * rounded (45 / 100)) = Number (- (9 / 2))"
  unfolding literal_045
  by (rule round64_eq,
      insert rounded_eq [where x = "- 10 * (8106479329266893 / 2 ^ 54)" and e = 2
        and m = "- 5066549580791808"])
    (simp_all add: pow2_def)

lemma minus_4_1:
  "round64 (rounded (41 / 10) - 4) = Number (rounded (9999999999999964 / 10 ^ 17))"
  unfolding literal_4_1 literal_0_0999
  by (rule round64_eq,
      insert rounded_eq [where x = "4616189618054758 / 2 ^ 50 - 4" and e = "- 4"
        and m = 7205759403792768])
    (simp_all add: pow2_def)

lemma nonneg_literals:
  "0 \<le> rounded (216 / 10)" "0 \<le> rounded (58500000000000005 / 10 ^ 16)"
  "0 \<le> rounded (9999999999999964 / 10 ^ 17)"
  unfolding literal_21_6 literal_5_85 literal_0_0999 by simp_all

section \<open>Sizes\<close>

text \<open>
  The size setters in closed form, followed through the recursion as the color setter is:
  \<^verbatim>\<open>set width\<close> is the attribute write followed by \<open>write_width\<close>, and the attribute
  write runs the setter once more, with the string of the value, when the attribute
  changes. For a value of type Number that inner run writes what the outer one writes.
\<close>

lemma trim_names [simp]:
  "trim ''NaN'' = ''NaN''" "trim ''Infinity'' = ''Infinity''" "trim ''-Infinity'' = ''-Infinity''"
  by (simp_all add: trim_def whitespace_def)

lemma ToNumber_ToString: "is_number v \<Longrightarrow> ToNumber (JString (ToString v)) = ToNumber v"
  by (cases v) simp_all

lemma ToString_ToString [simp]: "ToString (JString (ToString v)) = ToString v"
  by simp

lemma setProperty_apply:
  "setProperty name t decls name = (if valid_length t then Some t else decls name)"
  by (simp add: setProperty_def)

lemma setProperty_idem [simp]: "setProperty name t (setProperty name t decls) = setProperty name t decls"
  by (simp add: setProperty_def)

lemma write_width_idem [simp]: "write_width v (write_width v s) = write_width v s"
  by (simp add: write_width_def)

lemma write_height_idem [simp]: "write_height v (write_height v s) = write_height v s"
  by (simp add: write_height_def)

lemma write_width_sel [simp]: "attributes (write_width v s) = attributes s"
  by (simp add: write_width_def)

lemma write_height_sel [simp]: "attributes (write_height v s) = attributes s"
  by (simp add: write_height_def)

lemma setAttribute_width_sync:
  "attributes s ''width'' = Some (ToString v) \<Longrightarrow> setAttribute ''width'' v s = s"
  by (subst setAttribute.simps)
    (simp add: Let_def observedAttributes_def callback_same is_boolean_attr_def fun_upd_idem)

lemma set_width_closed: "set_width v s = write_width v (setAttribute ''width'' v s)"
  by (subst set_width.simps) (simp add: Let_def write_width_def)

lemma assign_width: "assign ''width'' v s = set_width v s"
  by (subst assign.simps) simp

lemma callback_width_sync:
  "attributes s ''width'' = Some d \<Longrightarrow>
   attributeChangedCallback ''width'' old (Some d) s =
     (if old = Some d then s else write_width (JString d) s)"
  by (subst attributeChangedCallback.simps)
    (simp add: assign_width set_width_closed setAttribute_width_sync)

lemma setAttribute_width:
  "setAttribute ''width'' v s =
     (if attributes s ''width'' = Some (ToString v)
      then s
      else write_width (JString (ToString v))
             (s\<lparr>attributes := (attributes s)(''width'' \<mapsto> ToString v)\<rparr>))"
  by (subst setAttribute.simps)
    (simp add: Let_def observedAttributes_def callback_width_sync fun_upd_idem)

lemma setAttribute_height_sync:
  "attributes s ''height'' = Some (ToString v) \<Longrightarrow> setAttribute ''height'' v s = s"
  by (subst setAttribute.simps)
    (simp add: Let_def observedAttributes_def callback_same is_boolean_attr_def fun_upd_idem)

lemma set_height_closed: "set_height v s = write_height v (setAttribute ''height'' v s)"
  by (subst set_height.simps) (simp add: Let_def write_height_def)

lemma assign_height: "assign ''height'' v s = set_height v s"
  by (subst assign.simps) simp

lemma callback_height_sync:
  "attributes s ''height'' = Some d \<Longrightarrow>
   attributeChangedCallback ''height'' old (Some d) s =
     (if old = Some d then s else write_height (JString d) s)"
  by (subst attributeChangedCallback.simps)
    (simp add: assign_height set_height_closed setAttribute_height_sync)

lemma setAttribute_height:
  "setAttribute ''height'' v s =
     (if attributes s ''height'' = Some (ToString v)
      then s
      else write_height (JString (ToString v))
             (s\<lparr>attributes := (attributes s)(''height'' \<mapsto> ToString v)\<rparr>))"
  by (subst setAttribute.simps)
    (simp add: Let_def observedAttributes_def callback_height_sync fun_upd_idem)

lemma style_set_width:
  "style (set_width v s) ''width'' =
     (if valid_length (Px (ToString v)) then Some (Px (ToString v)) else style s ''width'')"
  by (simp add: set_width_closed setAttribute_width write_width_def setProperty_apply)

lemma style_set_height:
  "style (set_height v s) ''height'' =
     (if valid_length (Px (ToString v)) then Some (Px (ToString v)) else style s ''height'')"
  by (simp add: set_height_closed setAttribute_height write_height_def setProperty_apply)

lemma handle_set_width:
  "is_number v \<Longrightarrow>
   handle_style (set_width v s) ''width'' =
     (if valid_length (Px (Number_toString (js_times (ToNumber v) (Number (rounded (45 / 100))))))
      then Some (Px (Number_toString (js_times (ToNumber v) (Number (rounded (45 / 100))))))
      else handle_style s ''width'')"
  by (simp add: set_width_closed setAttribute_width write_width_def setProperty_apply
      ToNumber_ToString del: ToNumber.simps)

lemma handle_set_height:
  "is_number v \<Longrightarrow>
   handle_style (set_height v s) ''height'' =
     (if valid_length (Px (Number_toString (js_minus (ToNumber v) (Number 4))))
      then Some (Px (Number_toString (js_minus (ToNumber v) (Number 4))))
      else handle_style s ''height'')"
  by (simp add: set_height_closed setAttribute_height write_height_def setProperty_apply
      ToNumber_ToString del: ToNumber.simps)

section \<open>Fixed points of the boolean setters\<close>

text \<open>
  \<open>all_calls_terminate\<close> states the termination of the recursion as a lemma: the domain
  of the function, the accessible part of its call relation, is everything. The proof is
  the one given at the definition.
\<close>

lemma mirror_settled:
  "(shadowCheck s a \<noteq> None) = b \<Longrightarrow> (checkbox s a \<noteq> None) = b \<Longrightarrow> mirror a b s = s"
  by (cases b) (auto simp add: mirror_def fun_upd_idem)

lemma mirror_readonly_settled:
  "(shadowCheck s ''readonly'' \<noteq> None) = b \<Longrightarrow> (checkbox s ''readonly'' \<noteq> None) = b \<Longrightarrow>
   mirror_readonly b s = s"
  by (cases b) (auto simp add: mirror_readonly_def mirror_def fun_upd_idem)

lemma set_checked_settled:
  "settled ''checked'' (ToBoolean v) s \<Longrightarrow> set_checked v s = s"
  by (simp add: settled_def set_checked_sync mirror_settled)

lemma set_disabled_settled:
  "settled ''disabled'' (ToBoolean v) s \<Longrightarrow> set_disabled v s = s"
  by (simp add: settled_def set_disabled_sync mirror_settled)

lemma set_readonly_settled:
  "settled ''readonly'' (ToBoolean v) s \<Longrightarrow> set_readonly v s = s"
  by (simp add: settled_def set_readonly_sync mirror_readonly_settled)

lemma settled_set_checked: "settled ''checked'' (ToBoolean v) (set_checked v s)"
  by (auto simp add: settled_def set_checked_closed hasAttribute_def)

lemma settled_set_disabled: "settled ''disabled'' (ToBoolean v) (set_disabled v s)"
  by (auto simp add: settled_def set_disabled_closed hasAttribute_def)

lemma settled_set_readonly: "settled ''readonly'' (ToBoolean v) (set_readonly v s)"
  by (auto simp add: settled_def set_readonly_closed hasAttribute_def)

lemma all_calls_terminate: "terminates c"
proof -
  have "All terminates"
    apply (relation "measure call_measure")
    apply (simp_all add: call_measure_def m_set_string_def m_set_boolean_def m_setAttribute_def
        m_assign_def m_attributeChangedCallback_def is_boolean_attr_def hasAttribute_def
        observedAttributes_def)
    apply (elim disjE; simp)+
    done
  then show ?thesis by simp
qed

section \<open>Connecting the element\<close>

text \<open>
  \<^verbatim>\<open>connectedCallback\<close> is a sequence of thirteen steps. \<open>Let_wp\<close> carries an
  assertion \<open>Q\<close> from one step to the next, so that no step is unfolded into the ones
  after it.
\<close>

lemma Let_wp: "Q a \<Longrightarrow> (\<And>x. Q x \<Longrightarrow> P (f x)) \<Longrightarrow> P (Let a f)"
  by simp

lemma checked_addEventListener [simp]: "checked (addEventListener t l c s) = checked s"
  by (simp add: addEventListener_def checked_def hasAttribute_def)

lemma agree_listeners_upd [simp]: "agree (s\<lparr>listeners := w\<rparr>) = agree s"
  by (simp add: agree_def)

lemma agree_call_listener: "agree s \<Longrightarrow> agree (snd (call_listener l e s))"
  by (cases l) (simp_all add: u_click_def u_keyup_def agree_set_checked)

lemma agree_invoke_listeners: "agree s \<Longrightarrow> agree (snd (invoke_listeners ls e s))"
proof (induction ls arbitrary: e s)
  case Nil
  then show ?case by simp
next
  case (Cons x ls)
  obtain t l c where x: "x = (t, l, c)" by (cases x)
  obtain e1 s1 where r: "call_listener l e s = (e1, s1)" by (cases "call_listener l e s")
  from Cons.prems have "agree s1"
    using agree_call_listener [of s l e] r by simp
  with Cons x r show ?case by simp
qed

lemma agree_connectedCallback: "agree s \<Longrightarrow> agree (connectedCallback s)"
  unfolding connectedCallback_def
  apply (rule Let_wp [where P = agree and Q = agree], simp add: agree_setAttribute)
  apply (rule Let_wp [where P = agree and Q = agree], simp add: agree_setAttribute)
  apply (rule Let_wp [where P = agree and Q = agree], simp add: agree_setAttribute)
  apply (rule Let_wp [where P = agree and Q = agree], simp add: agree_setAttribute)
  apply (rule Let_wp [where P = agree and Q = agree], simp add: agree_setAttribute)
  apply (rule Let_wp [where P = agree and Q = agree], simp add: agree_setAttribute)
  apply (rule Let_wp [where P = agree and Q = agree])
   apply (simp add: agree_flag_values [OF frame_all(2)])
  apply (rule Let_wp [where P = agree and Q = agree])
   apply (simp add: agree_flag_values [OF frame_all(1)])
  apply (rule Let_wp [where P = agree and Q = agree], simp add: agree_set_checked)
  apply (rule Let_wp [where P = agree and Q = agree], simp add: agree_set_disabled)
  apply (rule Let_wp [where P = agree and Q = agree], simp add: agree_set_readonly)
  apply (rule Let_wp [where P = agree and Q = agree], simp add: addEventListener_def)
  apply (rule Let_wp [where P = agree and Q = agree], simp add: addEventListener_def)
  apply simp
  done

lemma listeners_connectedCallback:
  "set (listeners s) \<subseteq> {(''click'', Click_listener, True), (''keyup'', Keyup_listener, True)}
   \<Longrightarrow>
   set (listeners (connectedCallback s)) =
     {(''click'', Click_listener, True), (''keyup'', Keyup_listener, True)}"
  unfolding connectedCallback_def
  apply (rule Let_wp [where Q = "\<lambda>x. listeners x = listeners s"], simp add: listeners_all)
  apply (rule Let_wp [where Q = "\<lambda>x. listeners x = listeners s"], simp add: listeners_all)
  apply (rule Let_wp [where Q = "\<lambda>x. listeners x = listeners s"], simp add: listeners_all)
  apply (rule Let_wp [where Q = "\<lambda>x. listeners x = listeners s"], simp add: listeners_all)
  apply (rule Let_wp [where Q = "\<lambda>x. listeners x = listeners s"], simp add: listeners_all)
  apply (rule Let_wp [where Q = "\<lambda>x. listeners x = listeners s"], simp add: listeners_all)
  apply (rule Let_wp [where Q = "\<lambda>x. listeners x = listeners s"], simp add: listeners_all)
  apply (rule Let_wp [where Q = "\<lambda>x. listeners x = listeners s"], simp add: listeners_all)
  apply (rule Let_wp [where Q = "\<lambda>x. listeners x = listeners s"], simp add: listeners_all)
  apply (rule Let_wp [where Q = "\<lambda>x. listeners x = listeners s"], simp add: listeners_all)
  apply (rule Let_wp [where Q = "\<lambda>x. listeners x = listeners s"], simp add: listeners_all)
  apply (rule Let_wp [where Q = "\<lambda>x. set (listeners x) =
      insert (''click'', Click_listener, True) (set (listeners s))"])
   apply (auto simp add: addEventListener_def)[1]
  apply (rule Let_wp [where Q = "\<lambda>x. set (listeners x) =
      insert (''keyup'', Keyup_listener, True)
        (insert (''click'', Click_listener, True) (set (listeners s)))"])
   apply (auto simp add: addEventListener_def)[1]
  apply auto
  done

lemma checked_disconnectedCallback [simp]: "checked (disconnectedCallback s) = checked s"
  by (simp add: disconnectedCallback_def removeEventListener_def Let_def checked_def
      hasAttribute_def)

section \<open>The properties of the specification\<close>

subsection \<open>Toggling a disabled or read-only switch\<close>

text \<open>
  C1. In every state in which the \<^verbatim>\<open>disabled\<close> or the \<^verbatim>\<open>readonly\<close> attribute is
  set, an attempt to toggle changes nothing: the click listener \<^verbatim>\<open>_click\<close>, the key
  listener \<^verbatim>\<open>_keyup\<close> (for every event) and the method \<^verbatim>\<open>toggle()\<close>, which
  dispatches a click, all leave the checked state as it was. They leave the whole element
  as it was.
\<close>

theorem toggle_attempt_rejected:
  "readonly s \<or> disabled s \<Longrightarrow>
   checked (snd (snd (u_click e s))) = checked s \<and>
   checked (snd (snd (u_keyup e s))) = checked s \<and>
   checked (toggle s) = checked s \<and>
   snd (snd (u_click e s)) = s \<and> snd (snd (u_keyup e s)) = s \<and> toggle s = s"
  by (simp add: u_click_blocked u_keyup_blocked toggle_blocked)

text \<open>The theorem at the disabled element \<open>locked\<close>, for a click and for the space key.\<close>

theorem toggle_attempt_rejected_witness:
  "(readonly locked \<or> disabled locked) \<and>
   checked (snd (snd (u_click (key_event 1) locked))) = checked locked \<and>
   checked (snd (snd (u_keyup (key_event 32) locked))) = checked locked \<and>
   checked (toggle locked) = checked locked"
proof -
  have h: "readonly locked \<or> disabled locked"
    by (simp add: locked_def disabled_def hasAttribute_def)
  from toggle_attempt_rejected [OF h, of "key_event 1"]
    toggle_attempt_rejected [OF h, of "key_event 32"] h
  show ?thesis by simp
qed

subsection \<open>Host and checkboxes agree\<close>

text \<open>
  C2. Agreement of the host's \<^verbatim>\<open>checked\<close>, \<^verbatim>\<open>disabled\<close> and \<^verbatim>\<open>readonly\<close>
  attributes with those of the appended checkbox and of the shadow checkbox is an
  invariant: if the three elements agree before, they agree after every property setter,
  after a write or removal of any host attribute, after \<^verbatim>\<open>attributeChangedCallback\<close>
  for an observed attribute with any old and new value, after the click and keyup
  listeners, after \<^verbatim>\<open>toggle()\<close> and after the two lifecycle callbacks.
\<close>

theorem attribute_agreement_preserved:
  "agree s \<Longrightarrow>
   agree (set_checked v s) \<and> agree (set_disabled v s) \<and> agree (set_readonly v s) \<and>
   agree (set_width v s) \<and> agree (set_height v s) \<and> agree (set_color v s) \<and>
   agree (set_on_text v s) \<and> agree (set_onText v s) \<and>
   agree (set_off_text v s) \<and> agree (set_offText v s) \<and>
   agree (set_name v s) \<and> agree (set_value v s) \<and>
   agree (setAttribute name v s) \<and> agree (removeAttribute name s) \<and>
   (attr \<in> set observedAttributes \<longrightarrow> agree (attributeChangedCallback attr old new s)) \<and>
   agree (snd (snd (u_click e s))) \<and> agree (snd (snd (u_keyup e s))) \<and>
   agree (toggle s) \<and> agree (connectedCallback s) \<and> agree (disconnectedCallback s)"
proof -
  assume a: "agree s"
  have "agree (snd (snd (u_click e s)))" "agree (snd (snd (u_keyup e s)))"
    using a by (simp_all add: u_click_def u_keyup_def agree_set_checked)
  moreover have "agree (toggle s)"
    using a by (simp add: toggle_def click_def dispatchEvent_def agree_invoke_listeners)
  moreover have "agree (disconnectedCallback s)"
    using a by (simp add: disconnectedCallback_def removeEventListener_def Let_def)
  moreover have "agree (set_width v s)" "agree (set_height v s)" "agree (set_color v s)"
    "agree (set_on_text v s)" "agree (set_onText v s)" "agree (set_off_text v s)"
    "agree (set_offText v s)" "agree (set_name v s)" "agree (set_value v s)"
    using a by (simp_all add: agree_flag_values [OF frame_all(1)]
        agree_flag_values [OF frame_all(2)] agree_flag_values [OF frame_all(3)]
        agree_flag_values [OF frame_all(4)] agree_flag_values [OF frame_all(5)]
        agree_flag_values [OF frame_all(6)] agree_flag_values [OF frame_all(7)]
        agree_flag_values [OF frame_all(8)] agree_flag_values [OF frame_all(9)])
  ultimately show ?thesis
    using a agree_set_checked agree_set_disabled agree_set_readonly agree_setAttribute
      agree_removeAttribute agree_attributeChangedCallback agree_connectedCallback
    by simp
qed

text \<open>
  The theorem at the element \<open>minimal\<close>, where none of the three attributes is set on
  any element, with the callback for an added \<^verbatim>\<open>checked\<close> attribute.
\<close>

theorem attribute_agreement_preserved_witness:
  "agree minimal \<and> ''checked'' \<in> set observedAttributes \<and>
   agree (set_checked (JBool True) minimal) \<and>
   agree (set_readonly (JBool True) minimal) \<and>
   agree (attributeChangedCallback ''checked'' None (Some (Str [])) minimal) \<and>
   agree (snd (snd (u_keyup (key_event 32) minimal)))"
proof -
  have h: "agree minimal"
    by (simp add: agree_def flags_def minimal_def SwitchElement_def)
  have o: "''checked'' \<in> set observedAttributes"
    by (simp add: observedAttributes_def)
  from attribute_agreement_preserved [OF h, where v = "JBool True" and attr = "''checked''"
      and old = None and new = "Some (Str [])" and e = "key_event 32"] h o
  show ?thesis by simp
qed

subsection \<open>Assigning a color\<close>

text \<open>
  C3. For every string \<open>c\<close>, the assignment \<^verbatim>\<open>el.color = c\<close> sets the
  \<^verbatim>\<open>color\<close> attribute to \<open>c\<close>, and changes nothing else, if \<open>c\<close> is one of the
  seven names in \<^verbatim>\<open>VALID_COLORS\<close>; otherwise it leaves the element, and so the previous
  color, unchanged. The setter has no branch that raises. A string that spells a number is
  never a color name.
\<close>

theorem color_assignment:
  "(c \<in> set VALID_COLORS \<longrightarrow>
      set_color (JString (Str c)) s = s\<lparr>attributes := (attributes s)(''color'' \<mapsto> Str c)\<rparr> \<and>
      attributes (set_color (JString (Str c)) s) ''color'' = Some (Str c)) \<and>
   (c \<notin> set VALID_COLORS \<longrightarrow> set_color (JString (Str c)) s = s) \<and>
   set_color (JString (NumStr q)) s = s \<and>
   set VALID_COLORS =
     {''success'', ''primary'', ''secondary'', ''danger'', ''warning'', ''info'', ''dark''}"
  by (auto simp add: set_color_closed Array_includes_def VALID_COLORS_def)

text \<open>The theorem for the theme \<^verbatim>\<open>danger\<close> and for the string \<^verbatim>\<open>purple\<close>.\<close>

theorem color_assignment_witness:
  "''danger'' \<in> set VALID_COLORS \<and>
   attributes (set_color (JString (Str ''danger'')) minimal) ''color'' = Some (Str ''danger'') \<and>
   ''purple'' \<notin> set VALID_COLORS \<and>
   set_color (JString (Str ''purple'')) minimal = minimal"
proof -
  have h1: "''danger'' \<in> set VALID_COLORS" and h2: "''purple'' \<notin> set VALID_COLORS"
    by (simp_all add: VALID_COLORS_def)
  from color_assignment [of "''danger''" minimal] color_assignment [of "''purple''" minimal]
    h1 h2
  show ?thesis by simp
qed

subsection \<open>Toggling twice\<close>

text \<open>
  C4. In every state, two calls of \<^verbatim>\<open>toggle()\<close> in succession bring the checked state
  back to what it was; this covers the states in which toggling is rejected. The second
  conjunct shows that the first is not empty: on an enabled element with an odd number of
  registrations of the click listener (one, once connected) a single call inverts the
  checked state.
\<close>

theorem toggle_twice:
  "checked (toggle (toggle s)) = checked s \<and>
   (\<not> readonly s \<and> \<not> disabled s \<and> odd (click_flips (listeners s)) \<longrightarrow>
      checked (toggle s) = (\<not> checked s))"
proof (cases "readonly s \<or> disabled s")
  case True
  then show ?thesis by (auto simp add: toggle_blocked)
next
  case False
  then have en: "\<not> readonly s" "\<not> disabled s" by simp_all
  have en2: "\<not> readonly (toggle s)" "\<not> disabled (toggle s)"
    using toggle_enabled(2,3) [OF en] en by simp_all
  show ?thesis
    using toggle_enabled(1) [OF en2] toggle_enabled(1,4) [OF en] by auto
qed

text \<open>The theorem at the connected element \<open>attached\<close>.\<close>

theorem toggle_twice_witness:
  "\<not> readonly attached \<and> \<not> disabled attached \<and> odd (click_flips (listeners attached)) \<and>
   checked (toggle attached) = (\<not> checked attached) \<and>
   checked (toggle (toggle attached)) = checked attached"
proof -
  have h: "\<not> readonly attached \<and> \<not> disabled attached \<and> odd (click_flips (listeners attached))"
    by (simp add: attached_def minimal_def SwitchElement_def readonly_def disabled_def
        hasAttribute_def click_flips_def)
  from toggle_twice [of attached] h show ?thesis by simp
qed

subsection \<open>Disabled, read-only and the submitted checkbox\<close>

text \<open>
  C5. Assigning a truthy value to \<^verbatim>\<open>disabled\<close> puts the \<^verbatim>\<open>disabled\<close> attribute on
  the appended checkbox, the one a form submits; assigning any value to
  \<^verbatim>\<open>readonly\<close> leaves the \<^verbatim>\<open>disabled\<close> attribute of that checkbox as it was.
\<close>

theorem disabled_marks_checkbox_readonly_does_not:
  "(ToBoolean v \<longrightarrow> checkbox (set_disabled v s) ''disabled'' \<noteq> None) \<and>
   checkbox (set_readonly v s) ''disabled'' = checkbox s ''disabled''"
  by (simp add: checkbox_set_disabled checkbox_set_readonly)

text \<open>The theorem for the value \<^verbatim>\<open>true\<close> at the element \<open>minimal\<close>.\<close>

theorem disabled_marks_checkbox_readonly_does_not_witness:
  "ToBoolean (JBool True) \<and>
   checkbox (set_disabled (JBool True) minimal) ''disabled'' \<noteq> None \<and>
   checkbox (set_readonly (JBool True) minimal) ''disabled'' = None"
proof -
  have h: "ToBoolean (JBool True)" by simp
  have m: "checkbox minimal ''disabled'' = None"
    by (simp add: minimal_def SwitchElement_def)
  from disabled_marks_checkbox_readonly_does_not [of "JBool True" minimal] h m
  show ?thesis by simp
qed

subsection \<open>The size of the handle\<close>

text \<open>
  C6, as stated: the height setter makes the handle height a fixed proportion of the
  switch height. It does not: \<^verbatim>\<open>set height\<close> writes \<^verbatim>\<open>${value - 4}px\<close>, so a
  height of 24 gives a handle of 20 and a height of 48 a handle of 44 (the subtraction is
  exact on these doubles), and \<open>20 / 24\<close> differs from \<open>44 / 48\<close>.
\<close>

theorem handle_height_not_proportional:
  "handle_style (set_height (JNum 24) minimal) ''height'' = Some (Px (NumStr 20)) \<and>
   handle_style (set_height (JNum 48) minimal) ''height'' = Some (Px (NumStr 44)) \<and>
   (20 :: rat) / 24 \<noteq> 44 / 48"
proof -
  have r: "round64 20 = Number 20" "round64 44 = Number 44"
    using double_20 double_44 by (simp_all add: is_double_def)
  show ?thesis
    using double_24 double_48 r by (simp add: handle_set_height)
qed

text \<open>
  C6, amended. For every finite number \<open>w\<close> assigned to \<^verbatim>\<open>width\<close> the setter gives the
  switch the width \<open>w\<close> px and the handle the width \<open>w * 0.45\<close> px, the product of the two
  doubles rounded to a double: a fixed proportion up to that rounding. For every finite
  number \<open>h\<close> assigned to \<^verbatim>\<open>height\<close> it gives the switch the height \<open>h\<close> px and the
  handle the height \<open>h - 4\<close> px, rounded likewise: a fixed inset of 4 px, not a
  proportion. A length that comes out negative is no valid declaration and leaves the one
  before it in place, and so do \<^verbatim>\<open>NaN\<close> and the two infinities.
\<close>

theorem handle_size:
  "is_double w \<Longrightarrow> is_double h \<Longrightarrow>
   style (set_width (JNum w) s) ''width'' =
     (if 0 \<le> w then Some (Px (NumStr w)) else style s ''width'') \<and>
   handle_style (set_width (JNum w) s) ''width'' =
     (case round64 (w * rounded (45 / 100)) of
        Number r \<Rightarrow> if 0 \<le> r then Some (Px (NumStr r)) else handle_style s ''width''
      | _ \<Rightarrow> handle_style s ''width'') \<and>
   style (set_height (JNum h) s) ''height'' =
     (if 0 \<le> h then Some (Px (NumStr h)) else style s ''height'') \<and>
   handle_style (set_height (JNum h) s) ''height'' =
     (case round64 (h - 4) of
        Number r \<Rightarrow> if 0 \<le> r then Some (Px (NumStr r)) else handle_style s ''height''
      | _ \<Rightarrow> handle_style s ''height'') \<and>
   (v = JNaN \<or> v = JInfinity \<or> v = JNegInfinity \<longrightarrow>
      style (set_width v s) ''width'' = style s ''width'' \<and>
      handle_style (set_width v s) ''width'' = handle_style s ''width'' \<and>
      style (set_height v s) ''height'' = style s ''height'' \<and>
      handle_style (set_height v s) ''height'' = handle_style s ''height'')"
proof -
  assume w: "is_double w" and h: "is_double h"
  have fin: "handle_style (set_width (JNum w) s) ''width'' =
     (case round64 (w * rounded (45 / 100)) of
        Number r \<Rightarrow> if 0 \<le> r then Some (Px (NumStr r)) else handle_style s ''width''
      | _ \<Rightarrow> handle_style s ''width'')"
    using w by (simp add: handle_set_width split: number.splits)
  have fin': "handle_style (set_height (JNum h) s) ''height'' =
     (case round64 (h - 4) of
        Number r \<Rightarrow> if 0 \<le> r then Some (Px (NumStr r)) else handle_style s ''height''
      | _ \<Rightarrow> handle_style s ''height'')"
    using h by (simp add: handle_set_height split: number.splits)
  have inf: "style (set_width v s) ''width'' = style s ''width'' \<and>
      handle_style (set_width v s) ''width'' = handle_style s ''width'' \<and>
      style (set_height v s) ''height'' = style s ''height'' \<and>
      handle_style (set_height v s) ''height'' = handle_style s ''height''"
    if "v = JNaN \<or> v = JInfinity \<or> v = JNegInfinity"
    using that
    by (auto simp add: handle_set_width handle_set_height style_set_width style_set_height
        literal_045)
  show ?thesis
    using fin fin' inf by (simp add: style_set_width style_set_height)
qed

text \<open>
  The theorem for the sizes that \<^verbatim>\<open>connectedCallback\<close> assigns, 48 by 24, where the
  handle gets the double that prints as \<^verbatim>\<open>21.6\<close>; for the width 13, where the product
  is the double that prints as \<^verbatim>\<open>5.8500000000000005\<close>; for the height \<^verbatim>\<open>4.1\<close>, where
  the difference is the double that prints as \<^verbatim>\<open>0.09999999999999964\<close>; and for a
  negative width and \<^verbatim>\<open>NaN\<close>, which leave the handle without a width.
\<close>

theorem handle_size_witness:
  "is_double 48 \<and> is_double 24 \<and> is_double 13 \<and> is_double (rounded (41 / 10)) \<and>
   is_double (- 10) \<and>
   handle_style (set_width (JNum 48) minimal) ''width'' =
     Some (Px (NumStr (rounded (216 / 10)))) \<and>
   handle_style (set_height (JNum 24) minimal) ''height'' = Some (Px (NumStr 20)) \<and>
   handle_style (set_width (JNum 13) minimal) ''width'' =
     Some (Px (NumStr (rounded (58500000000000005 / 10 ^ 16)))) \<and>
   handle_style (set_height (JNum (rounded (41 / 10))) minimal) ''height'' =
     Some (Px (NumStr (rounded (9999999999999964 / 10 ^ 17)))) \<and>
   handle_style (set_width (JNum (- 10)) minimal) ''width'' = None \<and>
   handle_style (set_width JNaN minimal) ''width'' = None"
proof -
  have r: "round64 (24 - 4) = Number 20"
    using double_20 by (simp add: is_double_def)
  have m: "handle_style minimal ''width'' = None"
    by (simp add: minimal_def SwitchElement_def)
  have a: "handle_style (set_width (JNum 48) minimal) ''width'' =
      Some (Px (NumStr (rounded (216 / 10))))"
    "handle_style (set_height (JNum 24) minimal) ''height'' = Some (Px (NumStr 20))"
    "handle_style (set_width JNaN minimal) ''width'' = None"
    using handle_size [OF double_48 double_24, of minimal JNaN] nonneg_literals
    unfolding times_48 r by (simp_all add: m)
  have b: "handle_style (set_width (JNum 13) minimal) ''width'' =
      Some (Px (NumStr (rounded (58500000000000005 / 10 ^ 16))))"
    "handle_style (set_height (JNum (rounded (41 / 10))) minimal) ''height'' =
      Some (Px (NumStr (rounded (9999999999999964 / 10 ^ 17))))"
    using handle_size [OF double_13 double_4_1, of minimal] nonneg_literals
    unfolding times_13 minus_4_1 by simp_all
  have c: "handle_style (set_width (JNum (- 10)) minimal) ''width'' = None"
    using handle_size [OF double_minus_10 double_24, of minimal]
    unfolding times_minus_10 by (simp add: m)
  show ?thesis
    using a b c double_48 double_24 double_13 double_4_1 double_minus_10 by simp
qed

subsection \<open>After removal from the document\<close>

text \<open>
  C7. After \<^verbatim>\<open>disconnectedCallback\<close>, from every state, the registration of
  \<^verbatim>\<open>_click\<close> for clicks and that of \<^verbatim>\<open>_keyup\<close> for key releases are gone from
  the listener list. Let the list hold nothing but these two, the registrations that
  \<^verbatim>\<open>connectedCallback\<close> makes. Then \<^verbatim>\<open>connectedCallback\<close> leaves exactly these
  two, \<^verbatim>\<open>disconnectedCallback\<close> leaves none, and after it no sequence of events
  whatever (clicks and key releases among them) and no call of \<^verbatim>\<open>toggle()\<close> changes
  the element; the checked state stays what it was.
\<close>

theorem disconnected_ignores_events:
  "(''click'', Click_listener, True) \<notin> set (listeners (disconnectedCallback s)) \<and>
   (''keyup'', Keyup_listener, True) \<notin> set (listeners (disconnectedCallback s)) \<and>
   (set (listeners s) \<subseteq> {(''click'', Click_listener, True), (''keyup'', Keyup_listener, True)}
    \<longrightarrow>
      set (listeners (connectedCallback s)) =
        {(''click'', Click_listener, True), (''keyup'', Keyup_listener, True)} \<and>
      listeners (disconnectedCallback s) = [] \<and>
      dispatch_all es (disconnectedCallback s) = disconnectedCallback s \<and>
      checked (dispatch_all es (disconnectedCallback s)) = checked s \<and>
      toggle (disconnectedCallback s) = disconnectedCallback s)"
proof -
  have d: "(''click'', Click_listener, True) \<notin> set (listeners (disconnectedCallback s))"
    "(''keyup'', Keyup_listener, True) \<notin> set (listeners (disconnectedCallback s))"
    by (simp_all add: disconnectedCallback_def removeEventListener_def Let_def)
  have "listeners (disconnectedCallback s) = [] \<and>
      set (listeners (connectedCallback s)) =
        {(''click'', Click_listener, True), (''keyup'', Keyup_listener, True)}"
    if a: "set (listeners s) \<subseteq>
      {(''click'', Click_listener, True), (''keyup'', Keyup_listener, True)}"
    using disconnected_listeners [OF a] listeners_connectedCallback [OF a] by simp
  with d show ?thesis
    by (simp add: dispatch_all_no_listeners toggle_def click_def dispatchEvent_def)
qed

text \<open>
  The theorem at the connected element \<open>attached\<close>, for a release of the space key
  followed by one of the enter key.
\<close>

theorem disconnected_ignores_events_witness:
  "set (listeners attached) \<subseteq>
     {(''click'', Click_listener, True), (''keyup'', Keyup_listener, True)} \<and>
   listeners (disconnectedCallback attached) = [] \<and>
   checked (dispatch_all [key_event 32, key_event 13] (disconnectedCallback attached)) =
     checked attached"
proof -
  have h: "set (listeners attached) \<subseteq>
     {(''click'', Click_listener, True), (''keyup'', Keyup_listener, True)}"
    by (simp add: attached_def)
  from disconnected_ignores_events [of attached "[key_event 32, key_event 13]"] h
  show ?thesis by simp
qed

subsection \<open>A connected switch is on\<close>

text \<open>
  C8. \<^verbatim>\<open>connectedCallback\<close> assigns \<^verbatim>\<open>this.hasAttribute('checked') || true\<close> to
  \<^verbatim>\<open>checked\<close>, which is \<^verbatim>\<open>true\<close> whether or not the attribute is there, so the
  element is checked after \<^verbatim>\<open>connectedCallback\<close> from every state, also when the
  markup has no \<^verbatim>\<open>checked\<close> attribute.
\<close>

theorem connected_is_checked: "checked (connectedCallback s)"
  unfolding connectedCallback_def
  apply (rule Let_wp [where P = checked and Q = "\<lambda>_. True"], simp)
  apply (rule Let_wp [where P = checked and Q = "\<lambda>_. True"], simp)
  apply (rule Let_wp [where P = checked and Q = "\<lambda>_. True"], simp)
  apply (rule Let_wp [where P = checked and Q = "\<lambda>_. True"], simp)
  apply (rule Let_wp [where P = checked and Q = "\<lambda>_. True"], simp)
  apply (rule Let_wp [where P = checked and Q = "\<lambda>_. True"], simp)
  apply (rule Let_wp [where P = checked and Q = "\<lambda>_. True"], simp)
  apply (rule Let_wp [where P = checked and Q = "\<lambda>_. True"], simp)
  apply (rule Let_wp [where P = checked and Q = checked], simp)
  apply (rule Let_wp [where P = checked and Q = checked], simp)
  apply (rule Let_wp [where P = checked and Q = checked], simp)
  apply (rule Let_wp [where P = checked and Q = checked], simp)
  apply (rule Let_wp [where P = checked and Q = checked], simp)
  apply simp
  done

text \<open>The theorem at the element \<open>minimal\<close>, whose markup has no attribute at all.\<close>

theorem connected_is_checked_witness:
  "\<not> checked minimal \<and> checked (connectedCallback minimal)"
  using connected_is_checked [of minimal]
  by (simp add: minimal_def SwitchElement_def checked_def hasAttribute_def)

subsection \<open>The keys that toggle\<close>

text \<open>
  C9. On an element that is neither read-only nor disabled, \<^verbatim>\<open>_keyup\<close> inverts the
  checked state if and only if \<^verbatim>\<open>e.which\<close> is the number 32 or the number 13; for
  every other value of \<^verbatim>\<open>e.which\<close> it returns \<^verbatim>\<open>false\<close> and leaves the element
  as it was.
\<close>

theorem keyup_toggles_on_space_and_enter:
  "\<not> readonly s \<Longrightarrow> \<not> disabled s \<Longrightarrow>
   ((checked (snd (snd (u_keyup e s))) \<noteq> checked s) = (which e = JNum 32 \<or> which e = JNum 13)) \<and>
   (which e \<noteq> JNum 32 \<and> which e \<noteq> JNum 13 \<longrightarrow> u_keyup e s = (JBool False, e, s))"
  by (simp add: u_keyup_def)

text \<open>The theorem at \<open>attached\<close> for the key codes 32, 13 and 65.\<close>

theorem keyup_toggles_on_space_and_enter_witness:
  "\<not> readonly attached \<and> \<not> disabled attached \<and>
   checked (snd (snd (u_keyup (key_event 32) attached))) \<noteq> checked attached \<and>
   checked (snd (snd (u_keyup (key_event 13) attached))) \<noteq> checked attached \<and>
   which (key_event 65) \<noteq> JNum 32 \<and> which (key_event 65) \<noteq> JNum 13 \<and>
   u_keyup (key_event 65) attached = (JBool False, key_event 65, attached)"
proof -
  have h: "\<not> readonly attached" "\<not> disabled attached"
    by (simp_all add: attached_def minimal_def SwitchElement_def readonly_def disabled_def
        hasAttribute_def)
  from keyup_toggles_on_space_and_enter [OF h, of "key_event 32"]
    keyup_toggles_on_space_and_enter [OF h, of "key_event 13"]
    keyup_toggles_on_space_and_enter [OF h, of "key_event 65"] h
  show ?thesis by (simp add: key_event_def)
qed

subsection \<open>Termination and fixed points of the boolean setters\<close>

text \<open>
  C10. The recursion between the setters, the host's attribute methods and
  \<^verbatim>\<open>attributeChangedCallback\<close> is well founded: every call \<open>c\<close> of any of them lies in
  the accessible part of the call relation. After a boolean setter has run, the attribute
  is settled on the host and on both checkboxes, so a second assignment of the same value
  changes nothing; assigning to an element that is settled already changes nothing; and
  when the host attribute's presence already equals the target, the setter leaves the
  host's attributes and class list alone, that is, it calls neither
  \<^verbatim>\<open>setAttribute\<close> nor \<^verbatim>\<open>removeAttribute\<close> and no callback runs.
\<close>

theorem boolean_setters_reach_fixed_point:
  "terminates c \<and>
   settled ''checked'' (ToBoolean v) (set_checked v s) \<and>
   settled ''disabled'' (ToBoolean v) (set_disabled v s) \<and>
   settled ''readonly'' (ToBoolean v) (set_readonly v s) \<and>
   set_checked v (set_checked v s) = set_checked v s \<and>
   set_disabled v (set_disabled v s) = set_disabled v s \<and>
   set_readonly v (set_readonly v s) = set_readonly v s \<and>
   (settled ''checked'' (ToBoolean v) s \<longrightarrow> set_checked v s = s) \<and>
   (settled ''disabled'' (ToBoolean v) s \<longrightarrow> set_disabled v s = s) \<and>
   (settled ''readonly'' (ToBoolean v) s \<longrightarrow> set_readonly v s = s) \<and>
   (hasAttribute s ''checked'' = ToBoolean v \<longrightarrow>
      attributes (set_checked v s) = attributes s \<and> classList (set_checked v s) = classList s) \<and>
   (hasAttribute s ''disabled'' = ToBoolean v \<longrightarrow>
      attributes (set_disabled v s) = attributes s \<and> classList (set_disabled v s) = classList s) \<and>
   (hasAttribute s ''readonly'' = ToBoolean v \<longrightarrow>
      attributes (set_readonly v s) = attributes s \<and> classList (set_readonly v s) = classList s)"
  by (simp add: all_calls_terminate settled_set_checked settled_set_disabled settled_set_readonly
      set_checked_settled set_disabled_settled set_readonly_settled
      set_checked_sync set_disabled_sync set_readonly_sync)

text \<open>
  The theorem for the value \<^verbatim>\<open>false\<close> at the element \<open>minimal\<close>, on which none of the
  three attributes is present.
\<close>

theorem boolean_setters_reach_fixed_point_witness:
  "settled ''checked'' (ToBoolean (JBool False)) minimal \<and>
   settled ''disabled'' (ToBoolean (JBool False)) minimal \<and>
   settled ''readonly'' (ToBoolean (JBool False)) minimal \<and>
   hasAttribute minimal ''checked'' = ToBoolean (JBool False) \<and>
   hasAttribute minimal ''disabled'' = ToBoolean (JBool False) \<and>
   hasAttribute minimal ''readonly'' = ToBoolean (JBool False) \<and>
   set_checked (JBool False) minimal = minimal \<and>
   set_disabled (JBool False) minimal = minimal \<and>
   set_readonly (JBool False) minimal = minimal \<and>
   classList (set_checked (JBool False) minimal) = classList minimal"
proof -
  have h: "settled ''checked'' (ToBoolean (JBool False)) minimal"
    "settled ''disabled'' (ToBoolean (JBool False)) minimal"
    "settled ''readonly'' (ToBoolean (JBool False)) minimal"
    "hasAttribute minimal ''checked'' = ToBoolean (JBool False)"
    "hasAttribute minimal ''disabled'' = ToBoolean (JBool False)"
    "hasAttribute minimal ''readonly'' = ToBoolean (JBool False)"
    by (simp_all add: settled_def minimal_def SwitchElement_def hasAttribute_def)
  from boolean_setters_reach_fixed_point [of _ "JBool False" minimal] h
  show ?thesis by simp
qed

end
